theory Spec2Isabelle
  imports Complex_Main
begin

section \<open>Floating-point values\<close>

text \<open>
  The arrays of \<^verbatim>\<open>prysm/colorimetry.py\<close> hold IEEE-754 doubles. A double is modelled
  as a real number or one of the three special values: a finite double is \<open>Fin r\<close>
  (rounding, overflow and underflow are not modelled: finite arithmetic is exact), the
  infinities are \<open>PInf\<close> and \<open>NInf\<close>, not-a-number is \<open>NaN\<close>. The model has one zero,
  \<open>Fin 0\<close>, standing for \<open>+0.0\<close>; \<open>-0.0\<close> is not represented.
\<close>

datatype npfloat = Fin real | PInf | NInf | NaN

fun isnan :: "npfloat \<Rightarrow> bool" where
  "isnan NaN = True"
| "isnan _ = False"

fun isinf :: "npfloat \<Rightarrow> bool" where
  "isinf PInf = True"
| "isinf NInf = True"
| "isinf _ = False"

fun isfinite :: "npfloat \<Rightarrow> bool" where
  "isfinite (Fin _) = True"
| "isfinite _ = False"

instantiation npfloat :: "{zero, one, plus, minus, uminus, times, inverse, ord}"
begin

definition zero_npfloat :: npfloat where
  "zero_npfloat = Fin 0"

definition one_npfloat :: npfloat where
  "one_npfloat = Fin 1"

fun plus_npfloat :: "npfloat \<Rightarrow> npfloat \<Rightarrow> npfloat" where
  "plus_npfloat NaN _ = NaN"
| "plus_npfloat _ NaN = NaN"
| "plus_npfloat (Fin a) (Fin b) = Fin (a + b)"
| "plus_npfloat PInf NInf = NaN"
| "plus_npfloat NInf PInf = NaN"
| "plus_npfloat PInf _ = PInf"
| "plus_npfloat _ PInf = PInf"
| "plus_npfloat NInf _ = NInf"
| "plus_npfloat _ NInf = NInf"

fun uminus_npfloat :: "npfloat \<Rightarrow> npfloat" where
  "uminus_npfloat (Fin a) = Fin (- a)"
| "uminus_npfloat PInf = NInf"
| "uminus_npfloat NInf = PInf"
| "uminus_npfloat NaN = NaN"

definition minus_npfloat :: "npfloat \<Rightarrow> npfloat \<Rightarrow> npfloat" where
  "minus_npfloat a b = a + (- b)"

fun times_npfloat :: "npfloat \<Rightarrow> npfloat \<Rightarrow> npfloat" where
  "times_npfloat NaN _ = NaN"
| "times_npfloat _ NaN = NaN"
| "times_npfloat (Fin a) (Fin b) = Fin (a * b)"
| "times_npfloat (Fin a) PInf = (if a = 0 then NaN else if 0 < a then PInf else NInf)"
| "times_npfloat (Fin a) NInf = (if a = 0 then NaN else if 0 < a then NInf else PInf)"
| "times_npfloat PInf (Fin b) = (if b = 0 then NaN else if 0 < b then PInf else NInf)"
| "times_npfloat NInf (Fin b) = (if b = 0 then NaN else if 0 < b then NInf else PInf)"
| "times_npfloat PInf PInf = PInf"
| "times_npfloat PInf NInf = NInf"
| "times_npfloat NInf PInf = NInf"
| "times_npfloat NInf NInf = PInf"

text \<open>
  Division follows IEEE-754 as numpy's true division of doubles does: a non-zero finite
  number divided by zero is an infinity with the sign of the numerator, zero divided by
  zero and infinity divided by infinity are not-a-number. Nothing raises.
\<close>

fun divide_npfloat :: "npfloat \<Rightarrow> npfloat \<Rightarrow> npfloat" where
  "divide_npfloat NaN _ = NaN"
| "divide_npfloat _ NaN = NaN"
| "divide_npfloat (Fin a) (Fin b) =
     (if b \<noteq> 0 then Fin (a / b)
      else if a = 0 then NaN else if 0 < a then PInf else NInf)"
| "divide_npfloat (Fin a) PInf = Fin 0"
| "divide_npfloat (Fin a) NInf = Fin 0"
| "divide_npfloat PInf (Fin b) = (if 0 \<le> b then PInf else NInf)"
| "divide_npfloat NInf (Fin b) = (if 0 \<le> b then NInf else PInf)"
| "divide_npfloat PInf _ = NaN"
| "divide_npfloat NInf _ = NaN"

definition inverse_npfloat :: "npfloat \<Rightarrow> npfloat" where
  "inverse_npfloat a = divide (Fin 1) a"

text \<open>Every comparison with not-a-number is false.\<close>

fun less_npfloat :: "npfloat \<Rightarrow> npfloat \<Rightarrow> bool" where
  "less_npfloat NaN _ = False"
| "less_npfloat _ NaN = False"
| "less_npfloat (Fin a) (Fin b) = (a < b)"
| "less_npfloat _ NInf = False"
| "less_npfloat PInf _ = False"
| "less_npfloat NInf _ = True"
| "less_npfloat _ PInf = True"

fun less_eq_npfloat :: "npfloat \<Rightarrow> npfloat \<Rightarrow> bool" where
  "less_eq_npfloat NaN _ = False"
| "less_eq_npfloat _ NaN = False"
| "less_eq_npfloat (Fin a) (Fin b) = (a \<le> b)"
| "less_eq_npfloat NInf _ = True"
| "less_eq_npfloat _ PInf = True"
| "less_eq_npfloat _ NInf = False"
| "less_eq_npfloat PInf _ = False"

instance ..

end

instance npfloat :: power ..

section \<open>Exceptions and results\<close>

text \<open>
  A raised exception is a value: \<open>Inl e\<close> is the exception \<open>e\<close>, \<open>Inr v\<close> the returned
  value. The string of \<open>ValueError\<close> and \<open>ImportError\<close> is the message where the source
  gives one and a short tag where numpy raises; the string of \<open>NameError\<close> is the
  undefined name.
\<close>

datatype exc =
    IndexError
  | TypeError
  | AxisError
  | ValueError string
  | ImportError string
  | NameError string

definition bindE :: "exc + 'a \<Rightarrow> ('a \<Rightarrow> exc + 'b) \<Rightarrow> exc + 'b" where
  "bindE m f = (case m of Inl e \<Rightarrow> Inl e | Inr v \<Rightarrow> f v)"

section \<open>numpy arrays\<close>

text \<open>
  An \<^verbatim>\<open>ndarray\<close> of doubles is its shape and its elements in row-major order. A
  zero-dimensional array (shape \<open>[]\<close>, one element) also stands for a Python or numpy
  scalar.
\<close>

datatype ndarray = NDArray (shape: "nat list") (data: "npfloat list")

definition wf :: "ndarray \<Rightarrow> bool" where
  "wf a \<longleftrightarrow> length (data a) = prod_list (shape a)"

definition scalar :: "npfloat \<Rightarrow> ndarray" where
  "scalar c = NDArray [] [c]"

text \<open>
  Element-wise arithmetic. In the conversions below the two operands always have the
  same shape or one of them is a scalar, which numpy broadcasts.
\<close>

definition ufunc2 :: "(npfloat \<Rightarrow> npfloat \<Rightarrow> npfloat) \<Rightarrow> ndarray \<Rightarrow> ndarray \<Rightarrow> ndarray" where
  "ufunc2 f a b =
     (if shape b = [] then NDArray (shape a) (map (\<lambda>x. f x (hd (data b))) (data a))
      else if shape a = [] then NDArray (shape b) (map (\<lambda>y. f (hd (data a)) y) (data b))
      else NDArray (shape a) (map2 f (data a) (data b)))"

instantiation ndarray :: "{plus, minus, uminus, times, inverse}"
begin

definition plus_ndarray :: "ndarray \<Rightarrow> ndarray \<Rightarrow> ndarray" where
  "plus_ndarray a b = ufunc2 (+) a b"

definition minus_ndarray :: "ndarray \<Rightarrow> ndarray \<Rightarrow> ndarray" where
  "minus_ndarray a b = ufunc2 (-) a b"

definition uminus_ndarray :: "ndarray \<Rightarrow> ndarray" where
  "uminus_ndarray a = NDArray (shape a) (map uminus (data a))"

definition times_ndarray :: "ndarray \<Rightarrow> ndarray \<Rightarrow> ndarray" where
  "times_ndarray a b = ufunc2 (*) a b"

definition divide_ndarray :: "ndarray \<Rightarrow> ndarray \<Rightarrow> ndarray" where
  "divide_ndarray a b = ufunc2 divide a b"

definition inverse_ndarray :: "ndarray \<Rightarrow> ndarray" where
  "inverse_ndarray a = NDArray (shape a) (map inverse (data a))"

instance ..

end

text \<open>\<^verbatim>\<open>a ** n\<close> for a literal natural exponent, element by element.\<close>

definition np_power :: "ndarray \<Rightarrow> nat \<Rightarrow> ndarray" where
  "np_power a n = NDArray (shape a) (map (\<lambda>x. x ^ n) (data a))"

text \<open>\<^verbatim>\<open>a > c\<close> for a scalar \<open>c\<close>: the array of truth values, in the order of the data.\<close>

definition np_greater :: "ndarray \<Rightarrow> npfloat \<Rightarrow> bool list" where
  "np_greater a c = map (\<lambda>x. c < x) (data a)"

text \<open>\<^verbatim>\<open>np.where(cond, a, b)\<close> for \<open>a\<close> and \<open>b\<close> of the shape of the condition.\<close>

definition np_where :: "bool list \<Rightarrow> ndarray \<Rightarrow> ndarray \<Rightarrow> ndarray" where
  "np_where c a b =
     NDArray (shape a) (map (\<lambda>(t, x, y). if t then x else y) (zip c (zip (data a) (data b))))"

text \<open>
  \<^verbatim>\<open>a[..., j]\<close>: element \<open>j\<close> of the trailing axis at every position of the leading
  axes. numpy raises IndexError on a zero-dimensional array and when \<open>j\<close> is not below
  the length of the trailing axis.
\<close>

definition getitem_last :: "ndarray \<Rightarrow> nat \<Rightarrow> exc + ndarray" where
  "getitem_last a j =
     (if shape a = [] then Inl IndexError
      else let k = last (shape a) in
        if j < k
        then Inr (NDArray (butlast (shape a))
                    (map (\<lambda>i. data a ! (i * k + j)) [0..<prod_list (butlast (shape a))]))
        else Inl IndexError)"

text \<open>
  \<^verbatim>\<open>np.stack(arrays, axis)\<close>: the arrays, all of one shape, joined along a new axis at
  position \<open>axis\<close>. numpy raises ValueError for no arrays and for arrays of different
  shapes, and AxisError for an axis beyond the number of dimensions.
\<close>

definition np_stack :: "ndarray list \<Rightarrow> nat \<Rightarrow> exc + ndarray" where
  "np_stack arrays axis =
     (case arrays of
        [] \<Rightarrow> Inl (ValueError ''need at least one array to stack'')
      | a # _ \<Rightarrow>
          if \<exists>b \<in> set arrays. shape b \<noteq> shape a
          then Inl (ValueError ''all input arrays must have the same shape'')
          else if length (shape a) < axis then Inl AxisError
          else let outer = prod_list (take axis (shape a));
                   inner = prod_list (drop axis (shape a))
               in Inr (NDArray (take axis (shape a) @ [length arrays] @ drop axis (shape a))
                        (concat (map (\<lambda>out.
                           concat (map (\<lambda>b. take inner (drop (out * inner) (data b))) arrays))
                         [0..<outer]))))"

text \<open>
  Iterating an array yields its sub-arrays along the first axis; a zero-dimensional array
  cannot be iterated (TypeError). Unpacking into three names raises ValueError unless
  exactly three are yielded.
\<close>

definition iter_first :: "ndarray \<Rightarrow> exc + ndarray list" where
  "iter_first a =
     (case shape a of
        [] \<Rightarrow> Inl TypeError
      | n # s \<Rightarrow> Inr (map (\<lambda>i. NDArray s (take (prod_list s) (drop (i * prod_list s) (data a))))
                       [0..<n]))"

definition unpack3 :: "ndarray list \<Rightarrow> exc + (ndarray \<times> ndarray \<times> ndarray)" where
  "unpack3 xs =
     (case xs of
        [a, b, c] \<Rightarrow> Inr (a, b, c)
      | _ \<Rightarrow> Inl (ValueError ''wrong number of values to unpack''))"

text \<open>\<^verbatim>\<open>shape[-1]\<close> of the shape tuple: IndexError on the empty tuple.\<close>

definition shape_last :: "ndarray \<Rightarrow> exc + nat" where
  "shape_last a = (if shape a = [] then Inl IndexError else Inr (last (shape a)))"

section \<open>The chromaticity conversions\<close>

definition XYZ_to_xyY :: "ndarray \<Rightarrow> exc + ndarray" where
  "XYZ_to_xyY XYZ =
     bindE (getitem_last XYZ 0) (\<lambda>X.
     bindE (getitem_last XYZ 1) (\<lambda>Y.
     bindE (getitem_last XYZ 2) (\<lambda>Z.
       let x = X / (X + Y + Z);
           y = Y / (X + Y + Z)
       in np_stack [x, y, Y] (length (shape x)))))"

text \<open>
  \<^verbatim>\<open>xyY_to_xy\<close> tests \<^verbatim>\<open>shape[-1] is 2\<close>, which CPython decides as equality for small
  integers, and otherwise unpacks the array itself, that is, along its first axis.
\<close>

definition xyY_to_xy :: "ndarray \<Rightarrow> exc + ndarray" where
  "xyY_to_xy xyY =
     bindE (shape_last xyY) (\<lambda>n.
       if n = 2 then Inr xyY
       else bindE (bindE (iter_first xyY) unpack3) (\<lambda>(x, y, Y).
         np_stack [x, y] (length (shape x))))"

definition XYZ_to_xy :: "ndarray \<Rightarrow> exc + ndarray" where
  "XYZ_to_xy XYZ = bindE (XYZ_to_xyY XYZ) xyY_to_xy"

definition XYZ_to_uv :: "ndarray \<Rightarrow> exc + ndarray" where
  "XYZ_to_uv XYZ =
     bindE (getitem_last XYZ 0) (\<lambda>X.
     bindE (getitem_last XYZ 1) (\<lambda>Y.
     bindE (getitem_last XYZ 2) (\<lambda>Z.
       let u = (scalar (Fin 4) * X) / (X + scalar (Fin 15) * Y + scalar (Fin 3) * Z);
           v = (scalar (Fin 9) * Y) / (X + scalar (Fin 15) * Y + scalar (Fin 3) * Z)
       in np_stack [u, v] (length (shape u)))))"

definition xyY_to_XYZ :: "ndarray \<Rightarrow> exc + ndarray" where
  "xyY_to_XYZ xyY =
     bindE (getitem_last xyY 0) (\<lambda>x.
     bindE (getitem_last xyY 1) (\<lambda>y.
     bindE (getitem_last xyY 2) (\<lambda>Y.
       let X = (x * Y) / y;
           Z = ((scalar (Fin 1) - x - y) * Y) / y
       in np_stack [X, Y, Z] (length (shape X)))))"

definition Luv_uv_to_xy :: "ndarray \<Rightarrow> exc + ndarray" where
  "Luv_uv_to_xy uv =
     bindE (getitem_last uv 0) (\<lambda>u.
     bindE (getitem_last uv 1) (\<lambda>v.
       let x = (scalar (Fin 9) * u) /
                 (scalar (Fin 6) * u - scalar (Fin 16) * v + scalar (Fin 12));
           y = (scalar (Fin 4) * v) /
                 (scalar (Fin 6) * u - scalar (Fin 16) * v + scalar (Fin 12))
       in np_stack [x, y] (length (shape x))))"

text \<open>
  \<^verbatim>\<open>np.ones(shape) * Y\<close> in \<^verbatim>\<open>xy_to_xyY\<close> multiplies by a caller's value, which may be
  a scalar or an array of any shape, so this product is modelled with numpy's full
  broadcasting rule: shapes are aligned at their trailing axes, two lengths are
  compatible when they are equal or one of them is 1, and incompatible shapes raise
  ValueError.
\<close>

fun broadcast_rev :: "nat list \<Rightarrow> nat list \<Rightarrow> nat list option" where
  "broadcast_rev [] ys = Some ys"
| "broadcast_rev xs [] = Some xs"
| "broadcast_rev (x # xs) (y # ys) =
     (if x = y \<or> y = 1 then map_option ((#) x) (broadcast_rev xs ys)
      else if x = 1 then map_option ((#) y) (broadcast_rev xs ys)
      else None)"

definition broadcast_shapes :: "nat list \<Rightarrow> nat list \<Rightarrow> nat list option" where
  "broadcast_shapes s t = map_option rev (broadcast_rev (rev s) (rev t))"

fun unravel_index :: "nat list \<Rightarrow> nat \<Rightarrow> nat list" where
  "unravel_index [] i = []"
| "unravel_index (d # ds) i = (i div prod_list ds) # unravel_index ds (i mod prod_list ds)"

fun ravel_index :: "nat list \<Rightarrow> nat list \<Rightarrow> nat" where
  "ravel_index (d # ds) (j # js) = j * prod_list ds + ravel_index ds js"
| "ravel_index _ _ = 0"

text \<open>
  The flat index into an operand of shape \<open>s\<close> that feeds position \<open>i\<close> of the broadcast
  result of shape \<open>r\<close>: an axis of length 1 is read at index 0.
\<close>

definition broadcast_index :: "nat list \<Rightarrow> nat list \<Rightarrow> nat \<Rightarrow> nat" where
  "broadcast_index r s i =
     ravel_index s
       (map (\<lambda>(d, j). if d = 1 then 0 else j)
          (zip s (drop (length r - length s) (unravel_index r i))))"

definition np_ones :: "nat list \<Rightarrow> ndarray" where
  "np_ones s = NDArray s (replicate (prod_list s) (Fin 1))"

definition np_multiply :: "ndarray \<Rightarrow> ndarray \<Rightarrow> exc + ndarray" where
  "np_multiply a b =
     (case broadcast_shapes (shape a) (shape b) of
        None \<Rightarrow> Inl (ValueError ''operands could not be broadcast together'')
      | Some r \<Rightarrow>
          Inr (NDArray r
                (map (\<lambda>i. data a ! broadcast_index r (shape a) i *
                          data b ! broadcast_index r (shape b) i)
                   [0..<prod_list r])))"

text \<open>
  \<^verbatim>\<open>xy_to_xyY\<close> tests \<^verbatim>\<open>shape[-1] is 3\<close> (equality, as above) before anything else. The
  default of \<open>Y\<close> is the scalar 1.
\<close>

definition xy_to_xyY :: "ndarray \<Rightarrow> ndarray \<Rightarrow> exc + ndarray" where
  "xy_to_xyY xy Y =
     bindE (shape_last xy) (\<lambda>n.
       if n = 3 then Inr xy
       else
         bindE (getitem_last xy 0) (\<lambda>x.
         bindE (getitem_last xy 1) (\<lambda>y.
         bindE (np_multiply (np_ones (shape x)) Y) (\<lambda>Y.
           np_stack [x, y, Y] (length (shape x))))))"

definition xy_to_XYZ :: "ndarray \<Rightarrow> exc + ndarray" where
  "xy_to_XYZ xy = bindE (xy_to_xyY xy (scalar (Fin 1))) xyY_to_XYZ"

section \<open>CIE 1976 L*u*v*\<close>

text \<open>
  \<^verbatim>\<open>CIE_K = 24389 / 27\<close> and \<^verbatim>\<open>CIE_E = 216 / 24389\<close> are Python 3 true divisions of
  integers, that is, doubles.
\<close>

definition CIE_K :: npfloat where
  "CIE_K = Fin 24389 / Fin 27"

definition CIE_E :: npfloat where
  "CIE_E = Fin 216 / Fin 24389"

definition Luv_to_XYZ :: "ndarray \<Rightarrow> exc + ndarray" where
  "Luv_to_XYZ Luv =
     bindE (getitem_last Luv 0) (\<lambda>L.
     bindE (getitem_last Luv 1) (\<lambda>u.
     bindE (getitem_last Luv 2) (\<lambda>v.
       let X_r = Fin 0.9642; Y_r = Fin 1.0000; Z_r = Fin 0.8251;
           Y = np_where (np_greater L (CIE_E * CIE_K))
                 (np_power ((L + scalar (Fin 16)) / scalar (Fin 116)) 3)
                 (L / scalar CIE_K);
           a = scalar (Fin 1 / Fin 3) *
                 ((scalar (Fin 52) * L /
                    (u + scalar (Fin 13) * L *
                           scalar (Fin 4 * X_r / (X_r + Fin 15 * Y_r + Fin 3 * Z_r))))
                  - scalar (Fin 1));
           b = scalar (Fin (- 5)) * Y;
           c = scalar (Fin (- 1) / Fin 3.0);
           d = Y * (scalar (Fin 39) * L /
                      (v + scalar (Fin 13) * L *
                             scalar (Fin 9 * Y_r / (X_r + Fin 15 * Y_r + Fin 3 * Z_r)))
                    - scalar (Fin 5));
           X = (d - b) / (a - c);
           Z = X * a + b
       in np_stack [X, Y, Z] (length (shape X)))))"

definition Luv_to_uv :: "ndarray \<Rightarrow> exc + ndarray" where
  "Luv_to_uv Luv = bindE (Luv_to_XYZ Luv) XYZ_to_uv"

text \<open>
  \<open>nan_or_inf n q\<close>: \<open>q\<close> is what IEEE division by zero makes of the numerator \<open>n\<close>,
  not-a-number when \<open>n\<close> is zero or not-a-number and an infinity otherwise.
\<close>

definition nan_or_inf :: "npfloat \<Rightarrow> npfloat \<Rightarrow> bool" where
  "nan_or_inf n q \<longleftrightarrow> (if n = Fin 0 \<or> isnan n then isnan q else isinf q)"

section \<open>Spectrum\<close>

text \<open>
  \<^verbatim>\<open>Spectrum.__init__\<close> stores \<^verbatim>\<open>np.asarray\<close> of its two arguments, which is the
  argument itself for an array, and an empty \<^verbatim>\<open>meta\<close> dictionary. It checks nothing.
  The field \<^verbatim>\<open>values\<close> is \<open>values'\<close> here.
\<close>

record Spectrum =
  wavelengths :: ndarray
  values' :: ndarray
  meta :: "(string \<times> string) list"

definition Spectrum_init :: "ndarray \<Rightarrow> ndarray \<Rightarrow> Spectrum" where
  "Spectrum_init w v = \<lparr>wavelengths = w, values' = v, meta = []\<rparr>"

text \<open>
  \<^verbatim>\<open>np.searchsorted(a, v)\<close> with the default \<^verbatim>\<open>side='left'\<close>: numpy's binary search for
  one key over a one-dimensional array. Its comparison puts not-a-number last:
  \<open>a\<close> is before \<open>b\<close> when \<open>a < b\<close>, or \<open>b\<close> is not-a-number and \<open>a\<close> is not.
\<close>

definition np_less :: "npfloat \<Rightarrow> npfloat \<Rightarrow> bool" where
  "np_less a b \<longleftrightarrow> a < b \<or> (isnan b \<and> \<not> isnan a)"

function binsearch_left :: "npfloat list \<Rightarrow> npfloat \<Rightarrow> nat \<Rightarrow> nat \<Rightarrow> nat" where
  "binsearch_left arr key min_idx max_idx =
     (if min_idx < max_idx
      then let mid_idx = min_idx + (max_idx - min_idx) div 2
           in if np_less (arr ! mid_idx) key
              then binsearch_left arr key (mid_idx + 1) max_idx
              else binsearch_left arr key min_idx mid_idx
      else min_idx)"
  by pat_completeness auto
termination
  by (relation "measure (\<lambda>(arr, key, min_idx, max_idx). max_idx - min_idx)") auto

definition np_searchsorted :: "ndarray \<Rightarrow> npfloat \<Rightarrow> exc + nat" where
  "np_searchsorted a v =
     (if length (shape a) \<noteq> 1 then Inl (ValueError ''object of wrong depth for desired array'')
      else Inr (binsearch_left (data a) v 0 (hd (shape a))))"

text \<open>
  \<^verbatim>\<open>a[low:high]\<close> slices the first axis, clipping both bounds to its length; a
  zero-dimensional array cannot be sliced (IndexError).
\<close>

definition getitem_slice :: "ndarray \<Rightarrow> nat \<Rightarrow> nat \<Rightarrow> exc + ndarray" where
  "getitem_slice a low high =
     (case shape a of
        [] \<Rightarrow> Inl IndexError
      | n # s \<Rightarrow>
          let lo = min low n; hi = min high n; m = hi - lo
          in Inr (NDArray (m # s) (take (m * prod_list s) (drop (lo * prod_list s) (data a)))))"

text \<open>
  \<^verbatim>\<open>a.max()\<close> is the maximum over all elements and raises ValueError on an array with
  no element; numpy's maximum of two doubles is not-a-number when either is.
\<close>

definition np_maximum :: "npfloat \<Rightarrow> npfloat \<Rightarrow> npfloat" where
  "np_maximum a b = (if isnan a \<or> isnan b then NaN else if a < b then b else a)"

definition max_list :: "npfloat list \<Rightarrow> npfloat" where
  "max_list xs = foldl np_maximum (hd xs) (tl xs)"

definition np_max :: "ndarray \<Rightarrow> exc + npfloat" where
  "np_max a =
     (if data a = []
      then Inl (ValueError ''zero-size array to reduction operation maximum which has no identity'')
      else Inr (max_list (data a)))"

definition normalize_spectrum :: "Spectrum \<Rightarrow> exc + Spectrum" where
  "normalize_spectrum spectrum =
     (let wvl = wavelengths spectrum; vals = values' spectrum in
      bindE (np_searchsorted wvl (Fin 400)) (\<lambda>low.
      bindE (np_searchsorted wvl (Fin 700)) (\<lambda>high.
      bindE (getitem_slice vals low high) (\<lambda>vis.
      bindE (np_max vis) (\<lambda>vis_values_max.
        Inr (Spectrum_init wvl (vals / scalar vis_values_max)))))))"

text \<open>
  The reading of normalisation with both ends of the 400--700 nm window included: every
  value divided by the maximum of the values whose wavelength \<open>w\<close> has
  \<open>400 \<le> w \<le> 700\<close>. It is compared with \<^verbatim>\<open>normalize_spectrum\<close> below.
\<close>

definition normalize_spectrum_closed_window :: "Spectrum \<Rightarrow> Spectrum" where
  "normalize_spectrum_closed_window spectrum =
     Spectrum_init (wavelengths spectrum)
       (values' spectrum /
        scalar (max_list (map snd (filter (\<lambda>(w, v). Fin 400 \<le> w \<and> w \<le> Fin 700)
                                     (zip (data (wavelengths spectrum)) (data (values' spectrum)))))))"

section \<open>The optional colour package\<close>

text \<open>
  A Python value that may be \<^verbatim>\<open>None\<close>: a coordinate is \<^verbatim>\<open>None\<close> or a scalar or array.
\<close>

datatype pyval = PyNone | PyArr ndarray

text \<open>
  The colour-science package is not part of the repository; the functions of it that the
  module calls are parameters. \<open>'spd\<close> is the package's spectral power distribution type.
  The dictionary handed to \<^verbatim>\<open>SpectralPowerDistribution\<close> is its list of items.
\<close>

record 'spd colour_package =
  colour_XYZ_to_xy :: "pyval \<times> pyval \<times> pyval \<Rightarrow> exc + pyval"
  colour_XYZ_to_Luv :: "pyval \<times> pyval \<times> pyval \<Rightarrow> exc + pyval list"
  colour_Luv_to_uv :: "pyval \<times> pyval \<times> pyval \<Rightarrow> exc + pyval"
  colour_SpectralPowerDistribution :: "string \<Rightarrow> (npfloat \<times> ndarray) list \<Rightarrow> exc + 'spd"
  colour_align :: "'spd \<Rightarrow> real \<times> real \<times> real \<Rightarrow> exc + 'spd"
  colour_spectral_to_XYZ :: "'spd \<Rightarrow> exc + pyval list"

text \<open>
  The module's globals after import. \<^verbatim>\<open>import colour\<close> sits in a \<^verbatim>\<open>try\<close> whose
  \<^verbatim>\<open>except ImportError: pass\<close> swallows the failure, so importing the module always
  succeeds and the name \<^verbatim>\<open>colour\<close> is bound only when the package is installed.
\<close>

record 'spd module_globals =
  colour :: "'spd colour_package option"

definition import_colorimetry :: "'spd colour_package option \<Rightarrow> 'spd module_globals" where
  "import_colorimetry installed = \<lparr>colour = installed\<rparr>"

definition check_colour :: "'spd module_globals \<Rightarrow> exc + unit" where
  "check_colour g =
     (if colour g = None
      then Inl (ImportError
        ''prysm colorimetry requires the colour package, see http://colour-science.org/installation-guide/'')
      else Inr ())"

text \<open>Evaluating the global name \<^verbatim>\<open>colour\<close>: NameError when it is not bound.\<close>

definition name_colour :: "'spd module_globals \<Rightarrow> exc + 'spd colour_package" where
  "name_colour g = (case colour g of None \<Rightarrow> Inl (NameError ''colour'') | Some m \<Rightarrow> Inr m)"

text \<open>
  \<^verbatim>\<open>CIEXYZ\<close> has the fields \<^verbatim>\<open>x\<close>, \<^verbatim>\<open>y\<close>, \<^verbatim>\<open>z\<close> and \<^verbatim>\<open>CIELUV\<close> the fields \<^verbatim>\<open>u\<close>, \<^verbatim>\<open>v\<close>,
  \<^verbatim>\<open>l\<close>, here with the class name as a prefix.
\<close>

datatype CIEXYZ = CIEXYZ (ciexyz_x: pyval) (ciexyz_y: pyval) (ciexyz_z: pyval)

datatype CIELUV = CIELUV (cieluv_u: pyval) (cieluv_v: pyval) (cieluv_l: pyval)

definition CIEXYZ_to_xy :: "'spd module_globals \<Rightarrow> CIEXYZ \<Rightarrow> exc + pyval" where
  "CIEXYZ_to_xy g self =
     bindE (check_colour g) (\<lambda>_.
     bindE (name_colour g) (\<lambda>m.
       colour_XYZ_to_xy m (ciexyz_x self, ciexyz_y self, ciexyz_z self)))"

text \<open>
  \<^verbatim>\<open>dict(zip(wavelengths, values))\<close>: the pairs in order, a later value replacing the
  value of an equal earlier key. Keys are doubles and are compared as doubles: a
  not-a-number key equals no key, itself included, so every such pair is kept.
\<close>

definition py_float_eq :: "npfloat \<Rightarrow> npfloat \<Rightarrow> bool" where
  "py_float_eq a b \<longleftrightarrow> a = b \<and> \<not> isnan a"

fun dict_setitem :: "(npfloat \<times> 'v) list \<Rightarrow> npfloat \<Rightarrow> 'v \<Rightarrow> (npfloat \<times> 'v) list" where
  "dict_setitem [] k v = [(k, v)]"
| "dict_setitem ((k', v') # d) k v =
     (if py_float_eq k' k then (k', v) # d else (k', v') # dict_setitem d k v)"

definition dict_of_pairs :: "(npfloat \<times> 'v) list \<Rightarrow> (npfloat \<times> 'v) list" where
  "dict_of_pairs kvs = foldl (\<lambda>d (k, v). dict_setitem d k v) [] kvs"

text \<open>
  \<^verbatim>\<open>zip\<close> iterates both arrays along their first axes (TypeError for a zero-dimensional
  one). A key must be hashable: an element of a one-dimensional array is, a sub-array of an
  array of more dimensions is not (TypeError at the first pair).
\<close>

definition dict_of_zip :: "ndarray list \<Rightarrow> ndarray list \<Rightarrow> exc + (npfloat \<times> ndarray) list" where
  "dict_of_zip ks vs =
     (if list_ex (\<lambda>(k, v). shape k \<noteq> []) (zip ks vs) then Inl TypeError
      else Inr (dict_of_pairs (map (\<lambda>(k, v). (hd (data k), v)) (zip ks vs))))"

definition spd_from_spectrum :: "'spd module_globals \<Rightarrow> Spectrum \<Rightarrow> exc + 'spd" where
  "spd_from_spectrum g spectrum =
     bindE (iter_first (wavelengths spectrum)) (\<lambda>ks.
     bindE (iter_first (values' spectrum)) (\<lambda>vs.
     bindE (dict_of_zip ks vs) (\<lambda>spectrum_dict.
     bindE (name_colour g) (\<lambda>m.
       colour_SpectralPowerDistribution m [] spectrum_dict))))"

text \<open>\<^verbatim>\<open>CIEXYZ(*xyz)\<close>: the constructor takes exactly three arguments (TypeError otherwise).\<close>

definition CIEXYZ_of_star :: "pyval list \<Rightarrow> exc + CIEXYZ" where
  "CIEXYZ_of_star xyz = (case xyz of [x, y, z] \<Rightarrow> Inr (CIEXYZ x y z) | _ \<Rightarrow> Inl TypeError)"

definition CIEXYZ_from_spectrum :: "'spd module_globals \<Rightarrow> Spectrum \<Rightarrow> exc + CIEXYZ" where
  "CIEXYZ_from_spectrum g spectrum =
     bindE (check_colour g) (\<lambda>_.
     bindE (normalize_spectrum spectrum) (\<lambda>spectrum.
     bindE (spd_from_spectrum g spectrum) (\<lambda>spd.
     bindE (name_colour g) (\<lambda>m.
     bindE (colour_align m spd (360, 780, 10)) (\<lambda>aligned.
     bindE (colour_spectral_to_XYZ m aligned) CIEXYZ_of_star)))))"

definition CIELUV_to_uv :: "'spd module_globals \<Rightarrow> CIELUV \<Rightarrow> exc + pyval" where
  "CIELUV_to_uv g self =
     bindE (name_colour g) (\<lambda>m.
       colour_Luv_to_uv m (cieluv_l self, cieluv_u self, cieluv_v self))"

text \<open>
  The last two lines of \<^verbatim>\<open>CIELUV.from_XYZ\<close>:
  \<^verbatim>\<open>l, u, v = colour.XYZ_to_Luv((x, y, z)); return CIELUV(u, v, l)\<close>.
\<close>

definition CIELUV_of_XYZ :: "'spd module_globals \<Rightarrow> pyval \<times> pyval \<times> pyval \<Rightarrow> exc + CIELUV" where
  "CIELUV_of_XYZ g xyz =
     bindE (name_colour g) (\<lambda>m.
     bindE (colour_XYZ_to_Luv m xyz) (\<lambda>luv.
       case luv of
         [l, u, v] \<Rightarrow> Inr (CIELUV u v l)
       | _ \<Rightarrow> Inl (ValueError ''wrong number of values to unpack'')))"

definition CIELUV_from_XYZ ::
  "'spd module_globals \<Rightarrow> CIEXYZ option \<Rightarrow> pyval \<Rightarrow> pyval \<Rightarrow> pyval \<Rightarrow> exc + CIELUV" where
  "CIELUV_from_XYZ g ciexyz x y z =
     (case ciexyz of
        Some c \<Rightarrow> CIELUV_of_XYZ g (ciexyz_x c, ciexyz_y c, ciexyz_z c)
      | None \<Rightarrow>
          if x = PyNone \<and> y = PyNone \<and> z = PyNone
          then Inl (ValueError ''all values are None'')
          else CIELUV_of_XYZ g (x, y, z))"

definition CIELUV_from_spectrum :: "'spd module_globals \<Rightarrow> Spectrum \<Rightarrow> exc + CIELUV" where
  "CIELUV_from_spectrum g spectrum =
     bindE (CIEXYZ_from_spectrum g spectrum) (\<lambda>xyz.
       CIELUV_from_XYZ g (Some xyz) PyNone PyNone PyNone)"

text \<open>
  A stand-in for an installed colour package, to exercise the calls: its conversions
  return their arguments rearranged.
\<close>

definition stub_colour :: "((npfloat \<times> ndarray) list) colour_package" where
  "stub_colour =
     \<lparr>colour_XYZ_to_xy = (\<lambda>(x, y, z). Inr x),
      colour_XYZ_to_Luv = (\<lambda>(x, y, z). Inr [y, x, z]),
      colour_Luv_to_uv = (\<lambda>(l, u, v). Inr u),
      colour_SpectralPowerDistribution = (\<lambda>name d. Inr d),
      colour_align = (\<lambda>spd shape. Inr spd),
      colour_spectral_to_XYZ = (\<lambda>spd. Inr [PyNone, PyNone, PyNone])\<rparr>"

section \<open>The RGB stubs\<close>

text \<open>
  The bodies of \<^verbatim>\<open>XYZ_to_RGB\<close> and \<^verbatim>\<open>XYZ_to_sRGB\<close> are \<^verbatim>\<open>pass\<close>: they never look at
  their argument, touch no state, and return \<^verbatim>\<open>None\<close>.
\<close>

definition XYZ_to_RGB :: "pyval \<Rightarrow> exc + pyval" where
  "XYZ_to_RGB XYZ = Inr PyNone"

definition XYZ_to_sRGB :: "pyval \<Rightarrow> exc + pyval" where
  "XYZ_to_sRGB XYZ = Inr PyNone"

section \<open>Double arithmetic with rounding\<close>

text \<open>
  The conversions above compute with exact real numbers. To compare two computations
  digit for digit, the lines of \<^verbatim>\<open>XYZ_to_uv\<close>, \<^verbatim>\<open>Luv_uv_to_xy\<close> and \<^verbatim>\<open>XYZ_to_xy\<close> are
  also evaluated as the machine evaluates them on one triple: the exact result of every
  single operation is rounded to the nearest double, ties to the even significand
  (IEEE-754 binary64, 53 significant bits). \<open>round_significand\<close> scales a number by
  powers of two until its magnitude lies in \<open>[2^52, 2^53)\<close>, rounds it to an integer, and
  scales back. Overflow and subnormal numbers are not modelled.
\<close>

definition round_half_even :: "real \<Rightarrow> int" where
  "round_half_even x =
     (let f = \<lfloor>x\<rfloor>; r = x - of_int f
      in if r < 1 / 2 then f else if 1 / 2 < r then f + 1 else if even f then f else f + 1)"

fun round_significand :: "nat \<Rightarrow> real \<Rightarrow> real" where
  "round_significand fuel x =
     (if fuel = 0 then x
      else if 2 ^ 53 \<le> \<bar>x\<bar> then 2 * round_significand (fuel - 1) (x / 2)
      else if \<bar>x\<bar> < 2 ^ 52 then round_significand (fuel - 1) (x * 2) / 2
      else of_int (round_half_even x))"

declare round_significand.simps [simp del]

definition round_double :: "real \<Rightarrow> real" where
  "round_double x = (if x = 0 then 0 else round_significand 2200 x)"





section \<open>Views of an array for stating properties\<close>

text \<open>
  \<open>tab s g\<close> is the array of shape \<open>s\<close> whose element at flat index \<open>i\<close> is \<open>g i\<close>;
  \<open>item a i j\<close> is component \<open>j\<close> of the \<open>i\<close>-th tuple along the trailing axis of \<open>a\<close>.
\<close>

definition tab :: "nat list \<Rightarrow> (nat \<Rightarrow> npfloat) \<Rightarrow> ndarray" where
  "tab s g = NDArray s (map g [0..<prod_list s])"

definition item :: "ndarray \<Rightarrow> nat \<Rightarrow> nat \<Rightarrow> npfloat" where
  "item a i j = data a ! (i * last (shape a) + j)"

section \<open>Array lemmas\<close>

lemma wf_tab: "wf a \<Longrightarrow> a = tab (shape a) (\<lambda>i. data a ! i)"
  by (cases a) (simp add: wf_def tab_def list_eq_iff_nth_eq)

lemma shape_tab [simp]: "shape (tab s g) = s"
  by (simp add: tab_def)

lemma tab_cong: "(\<And>i. i < prod_list s \<Longrightarrow> g i = h i) \<Longrightarrow> tab s g = tab s h"
  by (simp add: tab_def)

lemma getitem_last_tab:
  "j < k \<Longrightarrow> getitem_last (tab (s @ [k]) g) j = Inr (tab s (\<lambda>i. g (i * k + j)))"
proof -
  assume jk: "j < k"
  have "i * k + j < prod_list s * k" if "i < prod_list s" for i
  proof -
    from that have "Suc i \<le> prod_list s" by simp
    then have "Suc i * k \<le> prod_list s * k" by (rule mult_le_mono1)
    with jk show ?thesis by simp
  qed
  then show ?thesis
    using jk by (simp add: getitem_last_def tab_def)
qed

lemma getitem_last_tab_out:
  "\<not> j < k \<Longrightarrow> getitem_last (tab (s @ [k]) g) j = Inl IndexError"
  by (simp add: getitem_last_def tab_def)

lemma ufunc2_tab: "ufunc2 f (tab s g) (tab s h) = tab s (\<lambda>i. f (g i) (h i))"
  by (cases "s = []") (simp_all add: ufunc2_def tab_def zip_map_map flip: map2_map_map)

lemma ufunc2_scalar_left: "ufunc2 f (scalar c) (tab s h) = tab s (\<lambda>i. f c (h i))"
  by (cases "s = []") (simp_all add: ufunc2_def tab_def scalar_def)

lemma ufunc2_scalar_right: "ufunc2 f (tab s g) (scalar c) = tab s (\<lambda>i. f (g i) c)"
  by (cases "s = []") (simp_all add: ufunc2_def tab_def scalar_def)

lemmas tab_arith =
  ufunc2_tab ufunc2_scalar_left ufunc2_scalar_right
  plus_ndarray_def minus_ndarray_def times_ndarray_def divide_ndarray_def

lemma np_power_tab: "np_power (tab s g) n = tab s (\<lambda>i. g i ^ n)"
  by (simp add: np_power_def tab_def)

lemma np_where_tab:
  "np_where (np_greater (tab s g) c) (tab s a) (tab s b) = tab s (\<lambda>i. if c < g i then a i else b i)"
  by (simp add: np_where_def np_greater_def tab_def zip_map_map map_zip_map2 zip_same_conv_map comp_def)

lemma concat_singletons: "concat (map (\<lambda>b. [f b]) xs) = map f xs"
  by (induction xs) simp_all

lemma stack_row:
  assumes "i < prod_list s"
  shows "concat (map (\<lambda>b. take (Suc 0) (drop i (data b))) (map (tab s) gs)) = map (\<lambda>g. g i) gs"
proof (induction gs)
  case Nil
  show ?case by simp
next
  case (Cons g gs)
  have "take (Suc 0) (drop i (map g [0..<prod_list s])) = [g i]"
    using assms by (simp add: take_Suc_conv_app_nth)
  with Cons show ?case by (simp add: tab_def)
qed

lemma np_stack_tab:
  assumes "gs \<noteq> []"
  shows "np_stack (map (tab s) gs) (length s) =
         Inr (NDArray (s @ [length gs]) (concat (map (\<lambda>i. map (\<lambda>g. g i) gs) [0..<prod_list s])))"
proof -
  obtain g gs' where gs: "gs = g # gs'" using assms by (cases gs) auto
  have rows: "map (\<lambda>out. concat (map (\<lambda>b. take (Suc 0) (drop out (data b))) (map (tab s) gs))) [0..<prod_list s]
        = map (\<lambda>i. map (\<lambda>g. g i) gs) [0..<prod_list s]"
    by (rule map_cong) (simp_all add: stack_row del: map_map)
  have "np_stack (map (tab s) gs) (length s) =
        Inr (NDArray (s @ [length gs])
          (concat (map (\<lambda>out. concat (map (\<lambda>b. take (Suc 0) (drop out (data b))) (map (tab s) gs))) [0..<prod_list s])))"
    unfolding gs by (simp add: np_stack_def)
  then show ?thesis
    by (simp only: rows)
qed

lemma np_stack_tab3:
  "np_stack [tab s g1, tab s g2, tab s g3] (length s) =
   Inr (NDArray (s @ [3]) (concat (map (\<lambda>i. [g1 i, g2 i, g3 i]) [0..<prod_list s])))"
  using np_stack_tab [of "[g1, g2, g3]" s] by simp

lemma np_stack_tab2:
  "np_stack [tab s g1, tab s g2] (length s) =
   Inr (NDArray (s @ [2]) (concat (map (\<lambda>i. [g1 i, g2 i]) [0..<prod_list s])))"
  using np_stack_tab [of "[g1, g2]" s] by simp

lemma nth_concat_fixed:
  assumes "\<And>i. i < m \<Longrightarrow> length (f i) = n" "i < m" "j < n"
  shows "concat (map f [0..<m]) ! (i * n + j) = f i ! j"
  using assms
proof (induction m arbitrary: i)
  case 0
  then show ?case by simp
next
  case (Suc m)
  have len: "length (concat (map f [0..<m])) = m * n"
    using Suc.prems(1) by (induction m) simp_all
  show ?case
  proof (cases "i < m")
    case True
    then have "i * n + j < m * n"
      using Suc.prems(3) by (metis add.commute mult_Suc Suc_leI mult_le_mono1 add_less_le_mono nat_add_left_cancel_less less_le_trans)
    then show ?thesis
      using Suc True len by (simp add: nth_append)
  next
    case False
    then have "i = m" using Suc.prems(2) by simp
    then show ?thesis
      using Suc.prems len by (simp add: nth_append)
  qed
qed

lemma wf_tab_snoc:
  assumes "wf a" "shape a = s @ [k]"
  shows "a = tab (s @ [k]) (\<lambda>n. data a ! n)"
  using wf_tab [OF assms(1)] assms(2) by simp

lemma item_concat3:
  "i < m \<Longrightarrow> j < 3 \<Longrightarrow>
   item (NDArray (s @ [3]) (concat (map (\<lambda>i. [f i, g i, h i]) [0..<m]))) i j = [f i, g i, h i] ! j"
  using nth_concat_fixed [of m "\<lambda>i. [f i, g i, h i]" 3 i j] by (simp add: item_def)

lemma item_concat2:
  "i < m \<Longrightarrow> j < 2 \<Longrightarrow>
   item (NDArray (s @ [2]) (concat (map (\<lambda>i. [f i, g i]) [0..<m]))) i j = [f i, g i] ! j"
  using nth_concat_fixed [of m "\<lambda>i. [f i, g i]" 2 i j] by (simp add: item_def)

lemma length_concat_fixed:
  "(\<And>i. i < m \<Longrightarrow> length (f i) = n) \<Longrightarrow> length (concat (map f [0..<m])) = m * n"
  by (induction m) simp_all

lemma bindE_Inr [simp]: "bindE (Inr v) f = f v"
  by (simp add: bindE_def)

lemma bindE_Inl [simp]: "bindE (Inl e) f = Inl e"
  by (simp add: bindE_def)

lemma XYZ_to_xyY_tab:
  "XYZ_to_xyY (tab (s @ [3]) g) =
   Inr (NDArray (s @ [3]) (concat (map (\<lambda>i.
     [g (i * 3) / (g (i * 3) + g (i * 3 + 1) + g (i * 3 + 2)),
      g (i * 3 + 1) / (g (i * 3) + g (i * 3 + 1) + g (i * 3 + 2)),
      g (i * 3 + 1)]) [0..<prod_list s])))"
  by (simp add: XYZ_to_xyY_def getitem_last_tab Let_def tab_arith np_stack_tab3)

lemma XYZ_to_uv_tab:
  "XYZ_to_uv (tab (s @ [3]) g) =
   Inr (NDArray (s @ [2]) (concat (map (\<lambda>i.
     [(Fin 4 * g (i * 3)) / (g (i * 3) + Fin 15 * g (i * 3 + 1) + Fin 3 * g (i * 3 + 2)),
      (Fin 9 * g (i * 3 + 1)) / (g (i * 3) + Fin 15 * g (i * 3 + 1) + Fin 3 * g (i * 3 + 2))])
     [0..<prod_list s])))"
  by (simp add: XYZ_to_uv_def getitem_last_tab Let_def tab_arith np_stack_tab2)

lemma xyY_to_XYZ_tab:
  "xyY_to_XYZ (tab (s @ [3]) g) =
   Inr (NDArray (s @ [3]) (concat (map (\<lambda>i.
     [(g (i * 3) * g (i * 3 + 2)) / g (i * 3 + 1),
      g (i * 3 + 2),
      ((Fin 1 - g (i * 3) - g (i * 3 + 1)) * g (i * 3 + 2)) / g (i * 3 + 1)]) [0..<prod_list s])))"
  by (simp add: xyY_to_XYZ_def getitem_last_tab Let_def tab_arith np_stack_tab3)

lemma Luv_uv_to_xy_tab:
  "Luv_uv_to_xy (tab (s @ [2]) g) =
   Inr (NDArray (s @ [2]) (concat (map (\<lambda>i.
     [(Fin 9 * g (i * 2)) / (Fin 6 * g (i * 2) - Fin 16 * g (i * 2 + 1) + Fin 12),
      (Fin 4 * g (i * 2 + 1)) / (Fin 6 * g (i * 2) - Fin 16 * g (i * 2 + 1) + Fin 12)])
     [0..<prod_list s])))"
  by (simp add: Luv_uv_to_xy_def getitem_last_tab Let_def tab_arith np_stack_tab2)

lemma CIE_threshold: "CIE_E * CIE_K = Fin 8"
  by (simp add: CIE_E_def CIE_K_def)

lemma Luv_to_XYZ_tab:
  "Luv_to_XYZ (tab (s @ [3]) g) =
   Inr (NDArray (s @ [3]) (concat (map (\<lambda>i.
     let L = g (i * 3); u = g (i * 3 + 1); v = g (i * 3 + 2);
         Y = (if CIE_E * CIE_K < L then ((L + Fin 16) / Fin 116) ^ 3 else L / CIE_K);
         a = (Fin 1 / Fin 3) *
               (Fin 52 * L / (u + Fin 13 * L *
                  (Fin 4 * Fin 0.9642 / (Fin 0.9642 + Fin 15 * Fin 1 + Fin 3 * Fin 0.8251))) - Fin 1);
         b = Fin (- 5) * Y;
         c = Fin (- 1) / Fin 3;
         d = Y * (Fin 39 * L / (v + Fin 13 * L *
                  (Fin 9 * Fin 1 / (Fin 0.9642 + Fin 15 * Fin 1 + Fin 3 * Fin 0.8251))) - Fin 5);
         X = (d - b) / (a - c)
     in [X, Y, X * a + b]) [0..<prod_list s])))"
  by (simp add: Luv_to_XYZ_def getitem_last_tab Let_def tab_arith np_stack_tab3
        np_power_tab np_where_tab del: plus_npfloat.simps times_npfloat.simps divide_npfloat.simps)

lemma item_snoc: "shape a = s @ [k] \<Longrightarrow> item a i j = data a ! (i * k + j)"
  by (simp add: item_def)

lemma wf_concat3: "wf (NDArray (s @ [3]) (concat (map (\<lambda>i. [f i, g i, h i]) [0..<prod_list s])))"
  by (simp add: wf_def length_concat_fixed)

lemma wf_concat2: "wf (NDArray (s @ [2]) (concat (map (\<lambda>i. [f i, g i]) [0..<prod_list s])))"
  by (simp add: wf_def length_concat_fixed)

lemma Fin_power: "Fin a ^ n = Fin (a ^ n)"
  by (induction n) (simp_all add: one_npfloat_def)

lemmas nd_arith_defs =
  plus_ndarray_def minus_ndarray_def times_ndarray_def divide_ndarray_def ufunc2_def scalar_def

lemma upt_0_3: "[0..<3] = [0, 1, 2]"
  by (simp add: numeral_3_eq_3 upt_rec)

lemma XYZ_to_xyY_triple:
  "XYZ_to_xyY (NDArray [3] [X, Y, Z]) = Inr (NDArray [3] [X / (X + Y + Z), Y / (X + Y + Z), Y])"
  by (simp add: XYZ_to_xyY_def getitem_last_def np_stack_def nd_arith_defs Let_def
        del: plus_npfloat.simps times_npfloat.simps divide_npfloat.simps)

lemma xyY_to_xy_triple:
  "xyY_to_xy (NDArray [3] [x, y, Y]) = Inr (NDArray [2] [x, y])"
  by (simp add: xyY_to_xy_def shape_last_def iter_first_def unpack3_def np_stack_def upt_0_3)

lemma XYZ_to_xy_triple:
  "XYZ_to_xy (NDArray [3] [X, Y, Z]) = Inr (NDArray [2] [X / (X + Y + Z), Y / (X + Y + Z)])"
  by (simp add: XYZ_to_xy_def XYZ_to_xyY_triple xyY_to_xy_triple)



lemma xyY_to_XYZ_triple:
  "xyY_to_XYZ (NDArray [3] [x, y, Y]) =
   Inr (NDArray [3] [(x * Y) / y, Y, ((Fin 1 - x - y) * Y) / y])"
  by (simp add: xyY_to_XYZ_def getitem_last_def np_stack_def nd_arith_defs Let_def
        del: plus_npfloat.simps times_npfloat.simps divide_npfloat.simps)

lemma nan_or_inf_div_zero: "nan_or_inf n (n / Fin 0)"
  by (cases n) (simp_all add: nan_or_inf_def)

lemma nan_or_inf_scale:
  "0 < c \<Longrightarrow> nan_or_inf (Fin c * n) q \<Longrightarrow> nan_or_inf n q"
  by (cases n) (auto simp: nan_or_inf_def split: if_splits)

lemma wf_triple:
  assumes "wf a" and "shape a = [3]"
  shows "a = NDArray [3] [data a ! 0, data a ! 1, data a ! 2]"
proof -
  have "length (data a) = 3"
    using assms by (simp add: wf_def)
  then have "data a = [data a ! 0, data a ! 1, data a ! 2]"
    by (auto simp: list_eq_iff_nth_eq numeral_3_eq_3 numeral_2_eq_2 less_Suc_eq)
  then show ?thesis
    using assms(2) by (cases a) simp
qed

lemma upt_0_2: "[0..<2] = [0, 1]"
  by (simp add: numeral_2_eq_2 upt_rec)

lemma np_stack_shape:
  assumes "np_stack (a # as) (length (shape a)) = Inr r"
  shows "shape r = shape a @ [Suc (length as)]"
  using assms by (auto simp: np_stack_def Let_def split: if_splits)

lemma xyY_to_xy_pairs_unchanged:
  "shape a \<noteq> [] \<Longrightarrow> last (shape a) = 2 \<Longrightarrow> xyY_to_xy a = Inr a"
  by (simp add: xyY_to_xy_def shape_last_def)

lemma np_less_Fin [simp]: "np_less a (Fin c) \<longleftrightarrow> a < Fin c"
  by (simp add: np_less_def)

lemma npfloat_le_less_trans: "(a::npfloat) \<le> b \<Longrightarrow> b < c \<Longrightarrow> a < c"
  by (cases a; cases b; cases c) simp_all

lemma npfloat_less_trans: "(a::npfloat) < b \<Longrightarrow> b < c \<Longrightarrow> a < c"
  by (cases a; cases b; cases c) simp_all

lemma npfloat_not_less: "\<not> (a::npfloat) < b \<Longrightarrow> \<not> isnan a \<Longrightarrow> \<not> isnan b \<Longrightarrow> b \<le> a"
  by (cases a; cases b) simp_all

lemma npfloat_less_not_le: "(a::npfloat) < b \<Longrightarrow> \<not> b \<le> a"
  by (cases a; cases b) simp_all

lemma npfloat_less_not_nan: "(a::npfloat) < b \<Longrightarrow> \<not> isnan a"
  by (cases a; cases b) simp_all

lemma sorted_less_mono:
  assumes "sorted_wrt (\<le>) (ws::npfloat list)" "i \<le> j" "j < length ws" "ws ! j < c"
  shows "ws ! i < c"
proof (cases "i = j")
  case True
  with assms show ?thesis by simp
next
  case False
  with assms have "ws ! i \<le> ws ! j"
    by (simp add: sorted_wrt_nth_less)
  then show ?thesis using assms(4) by (rule npfloat_le_less_trans)
qed

lemma binsearch_left_sorted:
  "sorted_wrt (\<le>) ws \<Longrightarrow> lo \<le> hi \<Longrightarrow> hi \<le> length ws \<Longrightarrow>
         (\<forall>i<lo. ws ! i < Fin c) \<Longrightarrow> (\<forall>i. hi \<le> i \<and> i < length ws \<longrightarrow> \<not> ws ! i < Fin c) \<Longrightarrow>
         binsearch_left ws (Fin c) lo hi \<le> length ws \<and>
         (\<forall>i<binsearch_left ws (Fin c) lo hi. ws ! i < Fin c) \<and>
         (\<forall>i. binsearch_left ws (Fin c) lo hi \<le> i \<and> i < length ws \<longrightarrow> \<not> ws ! i < Fin c)"
proof (induction ws "Fin c" lo hi rule: binsearch_left.induct)
  case (1 arr lo hi)
  note srt = "1.prems"(1)
  show ?case
  proof (cases "lo < hi")
    case False
    with "1.prems" show ?thesis by (simp add: binsearch_left.simps [of arr _ lo hi])
  next
    case True
    define mid where "mid = lo + (hi - lo) div 2"
    have mid: "lo \<le> mid" "mid < hi"
      using True by (simp_all add: mid_def)
    show ?thesis
    proof (cases "arr ! mid < Fin c")
      case less: True
      have below: "\<forall>i<mid + 1. arr ! i < Fin c"
      proof (intro allI impI)
        fix i assume "i < mid + 1"
        then have im: "i \<le> mid" by simp
        have ml: "mid < length arr" using mid "1.prems" by simp
        show "arr ! i < Fin c"
          by (rule sorted_less_mono [OF srt im ml less])
      qed
      have eq: "binsearch_left arr (Fin c) lo hi = binsearch_left arr (Fin c) (mid + 1) hi"
        using True less by (simp add: binsearch_left.simps [of arr _ lo hi] mid_def Let_def)
      have "mid + 1 \<le> hi" using mid by simp
      have nl: "np_less (arr ! mid) (Fin c)" using less by simp
      show ?thesis
        unfolding eq
        by (rule "1.hyps"(1) [OF True mid_def nl srt \<open>mid + 1 \<le> hi\<close> "1.prems"(3) below "1.prems"(5)])
    next
      case notless: False
      have above: "\<forall>i. mid \<le> i \<and> i < length arr \<longrightarrow> \<not> arr ! i < Fin c"
      proof (intro allI impI notI)
        fix i assume i: "mid \<le> i \<and> i < length arr" and l: "arr ! i < Fin c"
        have "arr ! mid < Fin c"
          by (rule sorted_less_mono [OF srt conjunct1 [OF i] conjunct2 [OF i] l])
        with notless show False by simp
      qed
      have eq: "binsearch_left arr (Fin c) lo hi = binsearch_left arr (Fin c) lo mid"
        using True notless by (simp add: binsearch_left.simps [of arr _ lo hi] mid_def Let_def)
      have "mid \<le> length arr" using mid "1.prems" by simp
      have nl: "\<not> np_less (arr ! mid) (Fin c)" using notless by simp
      show ?thesis
        unfolding eq
        by (rule "1.hyps"(2) [OF True mid_def nl srt mid(1) \<open>mid \<le> length arr\<close> "1.prems"(4) above])
    qed
  qed
qed

lemma filter_interval:
  "(\<And>i. i < length xs \<Longrightarrow> P (xs ! i) \<longleftrightarrow> lo \<le> i \<and> i < hi) \<Longrightarrow>
   filter P xs = take (hi - lo) (drop lo xs)"
proof (induction xs arbitrary: lo hi)
  case Nil
  show ?case by simp
next
  case (Cons x xs)
  have head: "P x \<longleftrightarrow> lo = 0 \<and> 0 < hi"
    using Cons.prems [of 0] by simp
  have tail: "P (xs ! i) \<longleftrightarrow> lo - 1 \<le> i \<and> i < hi - 1" if "i < length xs" and "lo \<noteq> 0 \<or> hi \<noteq> 0" for i
    using Cons.prems [of "Suc i"] that by auto
  show ?case
  proof (cases "lo = 0")
    case True
    show ?thesis
    proof (cases "hi = 0")
      case True
      with \<open>lo = 0\<close> have "\<not> P y" if "y \<in> set (x # xs)" for y
        using Cons.prems that by (metis in_set_conv_nth not_less_zero)
      then have "filter P (x # xs) = []"
        by (simp add: filter_empty_conv)
      with True show ?thesis by simp
    next
      case False
      with True head have px: "P x" by simp
      have "filter P xs = take (hi - 1 - (lo - 1)) (drop (lo - 1) xs)"
        by (rule Cons.IH) (use tail False in blast)
      with px True False show ?thesis
        by (cases hi) simp_all
    qed
  next
    case False
    with head have npx: "\<not> P x" by simp
    have "filter P xs = take (hi - 1 - (lo - 1)) (drop (lo - 1) xs)"
      by (rule Cons.IH) (use tail False in blast)
    with npx False show ?thesis
      by (cases lo) simp_all
  qed
qed

lemma max_list_nonempty_data:
  "data a \<noteq> [] \<Longrightarrow> np_max a = Inr (max_list (data a))"
  by (simp add: np_max_def)

lemma binsearch_left_step:
  "binsearch_left arr key lo hi =
     (if lo < hi
      then if np_less (arr ! (lo + (hi - lo) div 2)) key
           then binsearch_left arr key (lo + (hi - lo) div 2 + 1) hi
           else binsearch_left arr key lo (lo + (hi - lo) div 2)
      else lo)"
  by (simp add: binsearch_left.simps [of arr key lo hi] Let_def)

lemma stub_CIELUV_of_XYZ:
  "CIELUV_of_XYZ (import_colorimetry (Some stub_colour)) (x, y, z) = Inr (CIELUV x z y)"
  by (simp add: CIELUV_of_XYZ_def name_colour_def import_colorimetry_def stub_colour_def)

lemmas round_eval = round_double_def round_significand.simps round_half_even_def

lemma double_three_fifths: "round_double (3 / 5) = 5404319552844595 / 9007199254740992"
  by (simp add: round_eval)




section \<open>Claims\<close>

text \<open>
  C1. For every array of (L, u, v) triples, \<^verbatim>\<open>Luv_to_XYZ\<close> returns an array of the same
  leading shape whose Y component at each position is \<open>((L + 16) / 116) ^ 3\<close> when \<open>L\<close>
  exceeds \<open>CIE_E * CIE_K\<close> (which is 8, with \<open>CIE_K = 24389 / 27\<close> and
  \<open>CIE_E = 216 / 24389\<close>) and \<open>L / CIE_K\<close> otherwise, and whose X and Z components are
  computed from Y with the D50 white \<open>X_r = 0.9642\<close>, \<open>Y_r = 1.0\<close>, \<open>Z_r = 0.8251\<close>.
\<close>

theorem Luv_to_XYZ_piecewise:
  assumes "wf Luv" and "shape Luv = s @ [3]"
  shows "CIE_K = Fin (24389 / 27) \<and> CIE_E = Fin (216 / 24389) \<and> CIE_E * CIE_K = Fin 8 \<and>
    (\<exists>XYZ. Luv_to_XYZ Luv = Inr XYZ \<and> wf XYZ \<and> shape XYZ = s @ [3] \<and>
      (\<forall>i<prod_list s.
         let L = item Luv i 0; u = item Luv i 1; v = item Luv i 2;
             X_r = Fin 0.9642; Y_r = Fin 1.0; Z_r = Fin 0.8251;
             Y = item XYZ i 1;
             a = Fin 1 / Fin 3 *
                   (Fin 52 * L / (u + Fin 13 * L * (Fin 4 * X_r / (X_r + Fin 15 * Y_r + Fin 3 * Z_r)))
                    - Fin 1);
             b = Fin (- 5) * Y;
             c = Fin (- 1) / Fin 3;
             d = Y * (Fin 39 * L / (v + Fin 13 * L * (Fin 9 * Y_r / (X_r + Fin 15 * Y_r + Fin 3 * Z_r)))
                      - Fin 5)
         in Y = (if CIE_E * CIE_K < L then ((L + Fin 16) / Fin 116) ^ 3 else L / CIE_K) \<and>
            item XYZ i 0 = (d - b) / (a - c) \<and>
            item XYZ i 2 = item XYZ i 0 * a + b))"
proof -
  let ?g = "\<lambda>n. data Luv ! n"
  have Luv: "Luv = tab (s @ [3]) ?g"
    using assms by (rule wf_tab_snoc)
  have it: "item Luv i j = ?g (i * 3 + j)" for i j
    using assms(2) by (rule item_snoc)
  have cie: "CIE_K = Fin (24389 / 27) \<and> CIE_E = Fin (216 / 24389) \<and> CIE_E * CIE_K = Fin 8"
    by (simp add: CIE_K_def CIE_E_def)
  define K where "K = (\<lambda>i.
     let L = ?g (i * 3); u = ?g (i * 3 + 1); v = ?g (i * 3 + 2);
         Y = (if CIE_E * CIE_K < L then ((L + Fin 16) / Fin 116) ^ 3 else L / CIE_K);
         a = (Fin 1 / Fin 3) *
               (Fin 52 * L / (u + Fin 13 * L *
                  (Fin 4 * Fin 0.9642 / (Fin 0.9642 + Fin 15 * Fin 1 + Fin 3 * Fin 0.8251))) - Fin 1);
         b = Fin (- 5) * Y;
         c = Fin (- 1) / Fin 3;
         d = Y * (Fin 39 * L / (v + Fin 13 * L *
                  (Fin 9 * Fin 1 / (Fin 0.9642 + Fin 15 * Fin 1 + Fin 3 * Fin 0.8251))) - Fin 5);
         X = (d - b) / (a - c)
     in [X, Y, X * a + b])"
  define XYZ where "XYZ = NDArray (s @ [3]) (concat (map K [0..<prod_list s]))"
  have XYZ: "Luv_to_XYZ (tab (s @ [3]) ?g) = Inr XYZ"
    unfolding XYZ_def K_def by (rule Luv_to_XYZ_tab)
  have len: "length (K i) = 3" for i
    by (simp add: K_def Let_def)
  have wfX: "wf XYZ"
    unfolding XYZ_def wf_def using length_concat_fixed [of "prod_list s" K 3, OF len] by simp
  have shX: "shape XYZ = s @ [3]"
    by (simp add: XYZ_def)
  have nth: "item XYZ i j = K i ! j" if "i < prod_list s" "j < 3" for i j
    unfolding item_snoc [OF shX] using nth_concat_fixed [of "prod_list s" K 3 i j, OF len that]
    by (simp add: XYZ_def)
  have pos: "\<forall>i<prod_list s.
         let L = item Luv i 0; u = item Luv i 1; v = item Luv i 2;
             X_r = Fin 0.9642; Y_r = Fin 1.0; Z_r = Fin 0.8251;
             Y = item XYZ i 1;
             a = Fin 1 / Fin 3 *
                   (Fin 52 * L / (u + Fin 13 * L * (Fin 4 * X_r / (X_r + Fin 15 * Y_r + Fin 3 * Z_r)))
                    - Fin 1);
             b = Fin (- 5) * Y;
             c = Fin (- 1) / Fin 3;
             d = Y * (Fin 39 * L / (v + Fin 13 * L * (Fin 9 * Y_r / (X_r + Fin 15 * Y_r + Fin 3 * Z_r)))
                      - Fin 5)
         in Y = (if CIE_E * CIE_K < L then ((L + Fin 16) / Fin 116) ^ 3 else L / CIE_K) \<and>
            item XYZ i 0 = (d - b) / (a - c) \<and>
            item XYZ i 2 = item XYZ i 0 * a + b"
  proof (intro allI impI)
    fix i assume i: "i < prod_list s"
    show "let L = item Luv i 0; u = item Luv i 1; v = item Luv i 2;
             X_r = Fin 0.9642; Y_r = Fin 1.0; Z_r = Fin 0.8251;
             Y = item XYZ i 1;
             a = Fin 1 / Fin 3 *
                   (Fin 52 * L / (u + Fin 13 * L * (Fin 4 * X_r / (X_r + Fin 15 * Y_r + Fin 3 * Z_r)))
                    - Fin 1);
             b = Fin (- 5) * Y;
             c = Fin (- 1) / Fin 3;
             d = Y * (Fin 39 * L / (v + Fin 13 * L * (Fin 9 * Y_r / (X_r + Fin 15 * Y_r + Fin 3 * Z_r)))
                      - Fin 5)
         in Y = (if CIE_E * CIE_K < L then ((L + Fin 16) / Fin 116) ^ 3 else L / CIE_K) \<and>
            item XYZ i 0 = (d - b) / (a - c) \<and>
            item XYZ i 2 = item XYZ i 0 * a + b"
      using nth [OF i, of 0] nth [OF i, of 1] nth [OF i, of 2]
      by (simp add: it K_def Let_def del: plus_npfloat.simps times_npfloat.simps divide_npfloat.simps)
  qed
  from XYZ wfX shX pos cie show ?thesis
    unfolding Luv [symmetric] by blast
qed

theorem Luv_to_XYZ_piecewise_witness:
  "wf (NDArray [2, 3] [Fin 50, Fin 0.2, Fin 0.4, Fin 8, Fin 0.2, Fin 0.4]) \<and>
   (\<exists>XYZ. Luv_to_XYZ (NDArray [2, 3] [Fin 50, Fin 0.2, Fin 0.4, Fin 8, Fin 0.2, Fin 0.4]) = Inr XYZ \<and>
      shape XYZ = [2, 3] \<and>
      item XYZ 0 1 = Fin ((66 / 116) ^ 3) \<and> item XYZ 1 1 = Fin (8 / (24389 / 27)))"
proof -
  let ?a = "NDArray [2, 3] [Fin 50, Fin 0.2, Fin 0.4, Fin 8, Fin 0.2, Fin 0.4]"
  have w: "wf ?a" by (simp add: wf_def)
  have s: "shape ?a = [2] @ [3]" by simp
  from Luv_to_XYZ_piecewise [OF w s]
  obtain XYZ where r: "Luv_to_XYZ ?a = Inr XYZ" "shape XYZ = [2] @ [3]"
    and p: "\<forall>i<prod_list [2].
      item XYZ i 1 = (if CIE_E * CIE_K < item ?a i 0 then ((item ?a i 0 + Fin 16) / Fin 116) ^ 3
                      else item ?a i 0 / CIE_K)"
    by (auto simp: Let_def simp del: plus_npfloat.simps times_npfloat.simps divide_npfloat.simps)
  have "item XYZ 0 1 = Fin ((66 / 116) ^ 3)"
    using p [rule_format, of 0] by (simp add: item_def CIE_E_def CIE_K_def Fin_power)
  moreover have "item XYZ 1 1 = Fin (8 / (24389 / 27))"
    using p [rule_format, of 1] by (simp add: item_def CIE_E_def CIE_K_def)
  ultimately show ?thesis using w r by auto
qed




text \<open>
  C2 (as amended). For every array whose trailing axis has length 3, \<^verbatim>\<open>XYZ_to_xyY\<close>,
  \<^verbatim>\<open>XYZ_to_uv\<close> and \<^verbatim>\<open>xyY_to_XYZ\<close> return without raising, and so does \<^verbatim>\<open>XYZ_to_xy\<close>
  on a single triple. At a position where the denominator is zero (\<open>X + Y + Z\<close> for
  xyY and xy, \<open>X + 15 Y + 3 Z\<close> for uv, \<open>y\<close> for \<^verbatim>\<open>xyY_to_XYZ\<close>), each quotient is
  not-a-number when its numerator is zero or not-a-number and is an infinity when its
  numerator is non-zero; the component that is copied stays as it is.
\<close>

theorem zero_denominator_nan_or_inf:
  assumes "wf a" and "shape a = s @ [3]"
  shows
    "(\<exists>r. XYZ_to_xyY a = Inr r \<and> shape r = s @ [3] \<and>
        (\<forall>i<prod_list s. item a i 0 + item a i 1 + item a i 2 = Fin 0 \<longrightarrow>
           nan_or_inf (item a i 0) (item r i 0) \<and> nan_or_inf (item a i 1) (item r i 1) \<and>
           item r i 2 = item a i 1)) \<and>
     (\<exists>r. XYZ_to_uv a = Inr r \<and> shape r = s @ [2] \<and>
        (\<forall>i<prod_list s. item a i 0 + Fin 15 * item a i 1 + Fin 3 * item a i 2 = Fin 0 \<longrightarrow>
           nan_or_inf (item a i 0) (item r i 0) \<and> nan_or_inf (item a i 1) (item r i 1))) \<and>
     (\<exists>r. xyY_to_XYZ a = Inr r \<and> shape r = s @ [3] \<and>
        (\<forall>i<prod_list s. item a i 1 = Fin 0 \<longrightarrow>
           nan_or_inf (item a i 0 * item a i 2) (item r i 0) \<and>
           item r i 1 = item a i 2 \<and>
           nan_or_inf ((Fin 1 - item a i 0 - item a i 1) * item a i 2) (item r i 2))) \<and>
     (s = [] \<longrightarrow>
        (\<exists>r. XYZ_to_xy a = Inr r \<and> shape r = [2] \<and>
           (item a 0 0 + item a 0 1 + item a 0 2 = Fin 0 \<longrightarrow>
              nan_or_inf (item a 0 0) (item r 0 0) \<and> nan_or_inf (item a 0 1) (item r 0 1))))"
proof -
  let ?g = "\<lambda>n. data a ! n"
  have a: "a = tab (s @ [3]) ?g"
    using assms by (rule wf_tab_snoc)
  have it: "item a i j = ?g (i * 3 + j)" for i j
    using assms(2) by (rule item_snoc)
  have p1: "\<exists>r. XYZ_to_xyY a = Inr r \<and> shape r = s @ [3] \<and>
        (\<forall>i<prod_list s. item a i 0 + item a i 1 + item a i 2 = Fin 0 \<longrightarrow>
           nan_or_inf (item a i 0) (item r i 0) \<and> nan_or_inf (item a i 1) (item r i 1) \<and>
           item r i 2 = item a i 1)"
    apply (subst a)
    apply (subst XYZ_to_xyY_tab)
    apply (intro exI conjI allI impI, rule refl, simp)
    apply (simp_all add: item_concat3 it nan_or_inf_div_zero del: divide_npfloat.simps plus_npfloat.simps)
    done
  have p2: "\<exists>r. XYZ_to_uv a = Inr r \<and> shape r = s @ [2] \<and>
        (\<forall>i<prod_list s. item a i 0 + Fin 15 * item a i 1 + Fin 3 * item a i 2 = Fin 0 \<longrightarrow>
           nan_or_inf (item a i 0) (item r i 0) \<and> nan_or_inf (item a i 1) (item r i 1))"
    apply (subst a)
    apply (subst XYZ_to_uv_tab)
    apply (intro exI conjI allI impI, rule refl, simp)
    apply (simp_all add: item_concat2 it del: divide_npfloat.simps plus_npfloat.simps times_npfloat.simps)
     apply (rule nan_or_inf_scale [of 4], simp, rule nan_or_inf_div_zero)
    apply (rule nan_or_inf_scale [of 9], simp, rule nan_or_inf_div_zero)
    done
  have p3: "\<exists>r. xyY_to_XYZ a = Inr r \<and> shape r = s @ [3] \<and>
        (\<forall>i<prod_list s. item a i 1 = Fin 0 \<longrightarrow>
           nan_or_inf (item a i 0 * item a i 2) (item r i 0) \<and>
           item r i 1 = item a i 2 \<and>
           nan_or_inf ((Fin 1 - item a i 0 - item a i 1) * item a i 2) (item r i 2))"
    apply (subst a)
    apply (subst xyY_to_XYZ_tab)
    apply (intro exI conjI allI impI, rule refl, simp)
    apply (simp_all add: item_concat3 it nan_or_inf_div_zero
             del: divide_npfloat.simps plus_npfloat.simps times_npfloat.simps)
    done
  have p4: "\<exists>r. XYZ_to_xy a = Inr r \<and> shape r = [2] \<and>
           (item a 0 0 + item a 0 1 + item a 0 2 = Fin 0 \<longrightarrow>
              nan_or_inf (item a 0 0) (item r 0 0) \<and> nan_or_inf (item a 0 1) (item r 0 1))"
    if "s = []"
  proof -
    have "a = NDArray [3] [?g 0, ?g 1, ?g 2]"
      by (rule wf_triple) (use assms that in simp_all)
    then have "XYZ_to_xy a = Inr (NDArray [2] [?g 0 / (?g 0 + ?g 1 + ?g 2), ?g 1 / (?g 0 + ?g 1 + ?g 2)])"
      using XYZ_to_xy_triple [of "?g 0" "?g 1" "?g 2"] by simp
    then show ?thesis
      by (auto simp: it item_def nan_or_inf_div_zero numeral_2_eq_2
            simp del: divide_npfloat.simps plus_npfloat.simps)
  qed
  from p1 p2 p3 p4 show ?thesis by blast
qed

text \<open>
  C2 as stated fails: \<open>(x, y, Y) = (0.3, 0, 1)\<close> has \<open>y = 0\<close>, and \<^verbatim>\<open>xyY_to_XYZ\<close> returns
  \<open>X = Z = +\<infinity>\<close>, which is not not-a-number.
\<close>

theorem zero_denominator_counterexample:
  "xyY_to_XYZ (NDArray [3] [Fin 0.3, Fin 0, Fin 1]) = Inr (NDArray [3] [PInf, Fin 1, PInf]) \<and>
   \<not> isnan PInf"
  by (simp add: xyY_to_XYZ_triple minus_npfloat_def)

theorem zero_denominator_nan_or_inf_witness:
  "wf (NDArray [2, 3] [Fin 0.3, Fin 0, Fin 1, Fin 0, Fin 0, Fin 0]) \<and>
   (\<exists>r. XYZ_to_xyY (NDArray [2, 3] [Fin 0.3, Fin 0, Fin 1, Fin 0, Fin 0, Fin 0]) = Inr r \<and>
        isnan (item r 1 0) \<and> isnan (item r 1 1) \<and> item r 1 2 = Fin 0) \<and>
   (\<exists>r. xyY_to_XYZ (NDArray [2, 3] [Fin 0.3, Fin 0, Fin 1, Fin 0, Fin 0, Fin 0]) = Inr r \<and>
        isinf (item r 0 0) \<and> item r 0 1 = Fin 1 \<and> isinf (item r 0 2) \<and> isnan (item r 1 0))"
proof -
  let ?a = "NDArray [2, 3] [Fin 0.3, Fin 0, Fin 1, Fin 0, Fin 0, Fin 0]"
  have w: "wf ?a" by (simp add: wf_def)
  have s: "shape ?a = [2] @ [3]" by simp
  note t = zero_denominator_nan_or_inf [OF w s]
  from t obtain r where r: "XYZ_to_xyY ?a = Inr r"
    and p: "\<forall>i<prod_list [2]. item ?a i 0 + item ?a i 1 + item ?a i 2 = Fin 0 \<longrightarrow>
           nan_or_inf (item ?a i 0) (item r i 0) \<and> nan_or_inf (item ?a i 1) (item r i 1) \<and>
           item r i 2 = item ?a i 1"
    by blast
  have c1: "isnan (item r 1 0) \<and> isnan (item r 1 1) \<and> item r 1 2 = Fin 0"
    using p [rule_format, of 1] by (simp add: item_def nan_or_inf_def)
  from t obtain q where q: "xyY_to_XYZ ?a = Inr q"
    and p': "\<forall>i<prod_list [2]. item ?a i 1 = Fin 0 \<longrightarrow>
           nan_or_inf (item ?a i 0 * item ?a i 2) (item q i 0) \<and>
           item q i 1 = item ?a i 2 \<and>
           nan_or_inf ((Fin 1 - item ?a i 0 - item ?a i 1) * item ?a i 2) (item q i 2)"
    by blast
  have c2: "isinf (item q 0 0) \<and> item q 0 1 = Fin 1 \<and> isinf (item q 0 2)"
    using p' [rule_format, of 0] by (simp add: item_def nan_or_inf_def minus_npfloat_def)
  have c3: "isnan (item q 1 0)"
    using p' [rule_format, of 1] by (simp add: item_def nan_or_inf_def)
  from w r c1 q c2 c3 show ?thesis by blast
qed

text \<open>
  C5. \<^verbatim>\<open>xyY_to_xy\<close> is meant to take the x and y channels from the trailing axis of any
  array of triples. The code unpacks the array along its first axis instead: an array of
  two triples, shape \<open>(2, 3)\<close>, raises ValueError, and an array of three triples, shape
  \<open>(3, 3)\<close>, returns the first two rows transposed rather than the first two columns.
\<close>

theorem xyY_to_xy_unpacks_first_axis:
  "xyY_to_xy (NDArray [2, 3] [Fin 1, Fin 2, Fin 3, Fin 4, Fin 5, Fin 6]) =
     Inl (ValueError ''wrong number of values to unpack'') \<and>
   xyY_to_xy (NDArray [3, 3] [Fin 1, Fin 2, Fin 3, Fin 4, Fin 5, Fin 6, Fin 7, Fin 8, Fin 9]) =
     Inr (NDArray [3, 2] [Fin 1, Fin 4, Fin 2, Fin 5, Fin 3, Fin 6]) \<and>
   getitem_last (NDArray [3, 3] [Fin 1, Fin 2, Fin 3, Fin 4, Fin 5, Fin 6, Fin 7, Fin 8, Fin 9]) 0 =
     Inr (NDArray [3] [Fin 1, Fin 4, Fin 7])"
  by (simp add: xyY_to_xy_def shape_last_def iter_first_def unpack3_def np_stack_def
        getitem_last_def upt_0_2 upt_0_3)

text \<open>
  C10. \<^verbatim>\<open>xy_to_xyY\<close> returns an input whose trailing axis has length 3 unchanged,
  whatever \<open>Y\<close> is, and applying it twice, with any two values of \<open>Y\<close>, gives what
  applying it once gives (an exception of the first application included).
\<close>

theorem xy_to_xyY_idempotent:
  "(shape xy \<noteq> [] \<and> last (shape xy) = 3 \<longrightarrow> xy_to_xyY xy Y = Inr xy) \<and>
   bindE (xy_to_xyY xy Y1) (\<lambda>xyY. xy_to_xyY xyY Y2) = xy_to_xyY xy Y1"
proof
  show "shape xy \<noteq> [] \<and> last (shape xy) = 3 \<longrightarrow> xy_to_xyY xy Y = Inr xy"
    by (simp add: xy_to_xyY_def shape_last_def)
next
  show "bindE (xy_to_xyY xy Y1) (\<lambda>xyY. xy_to_xyY xyY Y2) = xy_to_xyY xy Y1"
  proof (cases "xy_to_xyY xy Y1")
    case (Inl e)
    then show ?thesis by simp
  next
    case (Inr r)
    have "shape r \<noteq> [] \<and> last (shape r) = 3"
    proof (cases "shape xy \<noteq> [] \<and> last (shape xy) = 3")
      case True
      with Inr show ?thesis by (simp add: xy_to_xyY_def shape_last_def)
    next
      case False
      with Inr obtain x y Y' where "np_stack [x, y, Y'] (length (shape x)) = Inr r"
        by (auto simp: xy_to_xyY_def shape_last_def bindE_def split: if_splits sum.splits)
      then have "shape r = shape x @ [3]"
        using np_stack_shape [of x "[y, Y']" r] by simp
      then show ?thesis by simp
    qed
    then have "xy_to_xyY r Y2 = Inr r"
      by (simp add: xy_to_xyY_def shape_last_def)
    with Inr show ?thesis by simp
  qed
qed

theorem xy_to_xyY_idempotent_witness:
  "xy_to_xyY (NDArray [2] [Fin 0.3, Fin 0.4]) (scalar (Fin 1)) = Inr (NDArray [3] [Fin 0.3, Fin 0.4, Fin 1]) \<and>
   xy_to_xyY (NDArray [3] [Fin 0.3, Fin 0.4, Fin 1]) (scalar (Fin 5)) = Inr (NDArray [3] [Fin 0.3, Fin 0.4, Fin 1]) \<and>
   bindE (xy_to_xyY (NDArray [2] [Fin 0.3, Fin 0.4]) (scalar (Fin 1))) (\<lambda>xyY. xy_to_xyY xyY (scalar (Fin 5))) =
     Inr (NDArray [3] [Fin 0.3, Fin 0.4, Fin 1])"
proof -
  have one: "xy_to_xyY (NDArray [2] [Fin 0.3, Fin 0.4]) (scalar (Fin 1)) =
             Inr (NDArray [3] [Fin 0.3, Fin 0.4, Fin 1])"
    by (simp add: xy_to_xyY_def shape_last_def getitem_last_def np_ones_def np_multiply_def
          broadcast_shapes_def broadcast_index_def scalar_def np_stack_def)
  have "shape (NDArray [3] [Fin 0.3, Fin 0.4, Fin 1]) \<noteq> [] \<and>
        last (shape (NDArray [3] [Fin 0.3, Fin 0.4, Fin 1])) = 3"
    by simp
  with xy_to_xyY_idempotent [of "NDArray [3] [Fin 0.3, Fin 0.4, Fin 1]" "scalar (Fin 5)"]
  have two: "xy_to_xyY (NDArray [3] [Fin 0.3, Fin 0.4, Fin 1]) (scalar (Fin 5)) =
             Inr (NDArray [3] [Fin 0.3, Fin 0.4, Fin 1])"
    by blast
  from xy_to_xyY_idempotent [of "NDArray [2] [Fin 0.3, Fin 0.4]" _ "scalar (Fin 1)" "scalar (Fin 5)"]
  have "bindE (xy_to_xyY (NDArray [2] [Fin 0.3, Fin 0.4]) (scalar (Fin 1))) (\<lambda>xyY. xy_to_xyY xyY (scalar (Fin 5))) =
        xy_to_xyY (NDArray [2] [Fin 0.3, Fin 0.4]) (scalar (Fin 1))"
    by blast
  with one two show ?thesis by simp
qed

text \<open>
  C7 (as amended). For every Spectrum whose wavelengths and values are one-dimensional
  arrays of the same length, whose wavelengths are sorted ascending, and which has a
  wavelength \<open>w\<close> with \<open>400 \<le> w < 700\<close>, \<^verbatim>\<open>normalize_spectrum\<close> returns a new
  Spectrum with the same wavelengths and with every value divided by the maximum of the
  values at the wavelengths \<open>w\<close> with \<open>400 \<le> w < 700\<close>: the window is half-open, 700 nm
  itself is outside. The function is pure, so the input Spectrum is as it was.
\<close>

theorem normalize_spectrum_half_open_window:
  assumes wl: "wavelengths s = NDArray [n] ws" and vl: "values' s = NDArray [n] vs"
    and lw: "length ws = n" and lv: "length vs = n"
    and srt: "sorted_wrt (\<le>) ws"
    and ne: "\<exists>w \<in> set ws. Fin 400 \<le> w \<and> w < Fin 700"
  shows "normalize_spectrum s =
     Inr (Spectrum_init (wavelengths s)
            (NDArray [n] (map (\<lambda>v. v /
               max_list (map snd (filter (\<lambda>(w, v). Fin 400 \<le> w \<and> w < Fin 700) (zip ws vs))))
             vs)))"
proof -
  define lo where "lo = binsearch_left ws (Fin 400) 0 n"
  define hi where "hi = binsearch_left ws (Fin 700) 0 n"
  have L: "lo \<le> length ws \<and> (\<forall>i<lo. ws ! i < Fin 400) \<and>
           (\<forall>i. lo \<le> i \<and> i < length ws \<longrightarrow> \<not> ws ! i < Fin 400)"
    unfolding lo_def lw [symmetric] by (rule binsearch_left_sorted [OF srt]) auto
  have H: "hi \<le> length ws \<and> (\<forall>i<hi. ws ! i < Fin 700) \<and>
           (\<forall>i. hi \<le> i \<and> i < length ws \<longrightarrow> \<not> ws ! i < Fin 700)"
    unfolding hi_def lw [symmetric] by (rule binsearch_left_sorted [OF srt]) auto
  have win: "(Fin 400 \<le> ws ! i \<and> ws ! i < Fin 700) \<longleftrightarrow> lo \<le> i \<and> i < hi" if i: "i < length ws" for i
  proof
    assume a: "Fin 400 \<le> ws ! i \<and> ws ! i < Fin 700"
    then have "\<not> ws ! i < Fin 400"
      using npfloat_less_not_le by blast
    then have "lo \<le> i" using L by (meson not_le_imp_less)
    moreover have "i < hi" using a H i by (meson not_le_imp_less)
    ultimately show "lo \<le> i \<and> i < hi" ..
  next
    assume b: "lo \<le> i \<and> i < hi"
    then have lt: "ws ! i < Fin 700" using H by blast
    have "\<not> ws ! i < Fin 400" using b L i by blast
    then have "Fin 400 \<le> ws ! i"
      using npfloat_less_not_nan [OF lt] by (intro npfloat_not_less) simp_all
    with lt show "Fin 400 \<le> ws ! i \<and> ws ! i < Fin 700" by simp
  qed
  have flt: "filter (\<lambda>(w, v). Fin 400 \<le> w \<and> w < Fin 700) (zip ws vs) = take (hi - lo) (drop lo (zip ws vs))"
    by (rule filter_interval) (use win lw lv in simp)
  have vis: "map snd (filter (\<lambda>(w, v). Fin 400 \<le> w \<and> w < Fin 700) (zip ws vs)) = take (hi - lo) (drop lo vs)"
    unfolding flt using lw lv by (simp add: take_map [symmetric] drop_map [symmetric])
  obtain i where i: "i < length ws" "Fin 400 \<le> ws ! i \<and> ws ! i < Fin 700"
    using ne by (auto simp: in_set_conv_nth)
  then have lohi: "lo < hi" "hi \<le> n" "lo \<le> n"
    using win [OF i(1)] H L lw by auto
  then have nonempty: "take (hi - lo) (drop lo vs) \<noteq> []"
    using lv by simp
  have s1: "np_searchsorted (wavelengths s) (Fin 400) = Inr lo"
    by (simp add: np_searchsorted_def wl lo_def)
  have s2: "np_searchsorted (wavelengths s) (Fin 700) = Inr hi"
    by (simp add: np_searchsorted_def wl hi_def)
  have s3: "getitem_slice (values' s) lo hi = Inr (NDArray [hi - lo] (take (hi - lo) (drop lo vs)))"
    using lohi by (simp add: getitem_slice_def vl Let_def min_absorb1)
  have s4: "np_max (NDArray [hi - lo] (take (hi - lo) (drop lo vs))) = Inr (max_list (take (hi - lo) (drop lo vs)))"
    using nonempty by (simp add: np_max_def)
  have s5: "values' s / scalar m = NDArray [n] (map (\<lambda>v. v / m) vs)" for m
    by (simp add: vl divide_ndarray_def ufunc2_def scalar_def)
  show ?thesis
    by (simp add: normalize_spectrum_def Let_def s1 s2 s3 s4 s5 vis)
qed

theorem normalize_spectrum_half_open_window_witness:
  "sorted_wrt (\<le>) [Fin 300, Fin 400, Fin 500, Fin 699, Fin 800] \<and>
   (\<exists>w \<in> set [Fin 300, Fin 400, Fin 500, Fin 699, Fin 800]. Fin 400 \<le> w \<and> w < Fin 700) \<and>
   normalize_spectrum
     (Spectrum_init (NDArray [5] [Fin 300, Fin 400, Fin 500, Fin 699, Fin 800])
                    (NDArray [5] [Fin 9, Fin 2, Fin 4, Fin 3, Fin 7])) =
   Inr (Spectrum_init (NDArray [5] [Fin 300, Fin 400, Fin 500, Fin 699, Fin 800])
                      (NDArray [5] [Fin (9 / 4), Fin (1 / 2), Fin 1, Fin (3 / 4), Fin (7 / 4)]))"
proof -
  let ?ws = "[Fin 300, Fin 400, Fin 500, Fin 699, Fin 800]"
  let ?vs = "[Fin 9, Fin 2, Fin 4, Fin 3, Fin 7]"
  let ?s = "Spectrum_init (NDArray [5] ?ws) (NDArray [5] ?vs)"
  have srt: "sorted_wrt (\<le>) ?ws" by simp
  have ne: "\<exists>w \<in> set ?ws. Fin 400 \<le> w \<and> w < Fin 700" by simp
  have "normalize_spectrum ?s =
     Inr (Spectrum_init (wavelengths ?s)
            (NDArray [5] (map (\<lambda>v. v /
               max_list (map snd (filter (\<lambda>(w, v). Fin 400 \<le> w \<and> w < Fin 700) (zip ?ws ?vs))))
             ?vs)))"
    by (rule normalize_spectrum_half_open_window [OF _ _ _ _ srt ne])
       (simp_all add: Spectrum_init_def)
  then have "normalize_spectrum ?s =
     Inr (Spectrum_init (NDArray [5] ?ws)
        (NDArray [5] [Fin (9 / 4), Fin (1 / 2), Fin 1, Fin (3 / 4), Fin (7 / 4)]))"
    by (simp add: Spectrum_init_def max_list_def np_maximum_def)
  with srt ne show ?thesis by blast
qed

text \<open>
  C7 as stated, with 700 nm inside the window, fails: for the wavelengths 400 and 700 with
  the values 1 and 2 the code divides by 1, the value at 400 nm, and returns the values 1
  and 2, while the maximum over the closed window is 2 and would give 1/2 and 1.
\<close>

theorem normalize_spectrum_closed_window_counterexample:
  "normalize_spectrum (Spectrum_init (NDArray [2] [Fin 400, Fin 700]) (NDArray [2] [Fin 1, Fin 2])) =
     Inr (Spectrum_init (NDArray [2] [Fin 400, Fin 700]) (NDArray [2] [Fin 1, Fin 2])) \<and>
   normalize_spectrum_closed_window
       (Spectrum_init (NDArray [2] [Fin 400, Fin 700]) (NDArray [2] [Fin 1, Fin 2])) =
     Spectrum_init (NDArray [2] [Fin 400, Fin 700]) (NDArray [2] [Fin (1 / 2), Fin 1])"
proof -
  have lo: "binsearch_left [Fin 400, Fin 700] (Fin 400) 0 2 = 0"
    by (simp add: binsearch_left_step [of _ _ 0 2] binsearch_left_step [of _ _ 0 "Suc 0"]
          binsearch_left_step [of _ _ 0 0])
  have hi: "binsearch_left [Fin 400, Fin 700] (Fin 700) 0 2 = 1"
    by (simp add: binsearch_left_step [of _ _ 0 2] binsearch_left_step [of _ _ 0 "Suc 0"]
          binsearch_left_step [of _ _ "Suc 0" "Suc 0"])
  have a: "normalize_spectrum (Spectrum_init (NDArray [2] [Fin 400, Fin 700]) (NDArray [2] [Fin 1, Fin 2])) =
     Inr (Spectrum_init (NDArray [2] [Fin 400, Fin 700]) (NDArray [2] [Fin 1, Fin 2]))"
    by (simp add: normalize_spectrum_def Spectrum_init_def np_searchsorted_def lo hi
          getitem_slice_def np_max_def max_list_def divide_ndarray_def ufunc2_def scalar_def Let_def)
  have b: "normalize_spectrum_closed_window
       (Spectrum_init (NDArray [2] [Fin 400, Fin 700]) (NDArray [2] [Fin 1, Fin 2])) =
     Spectrum_init (NDArray [2] [Fin 400, Fin 700]) (NDArray [2] [Fin (1 / 2), Fin 1])"
    by (simp add: normalize_spectrum_closed_window_def Spectrum_init_def max_list_def
          np_maximum_def divide_ndarray_def ufunc2_def scalar_def)
  from a b show ?thesis ..
qed

text \<open>
  C6 (as amended). A Spectrum holds the two arrays it was constructed from, as they were
  given: construction checks nothing, so the arrays have equal length exactly when the
  constructor's arguments had. \<^verbatim>\<open>normalize_spectrum\<close>, the one operation that builds a
  Spectrum from a Spectrum, keeps the wavelengths and the shape of the values when it
  returns.
\<close>

theorem Spectrum_keeps_its_arrays:
  "wavelengths (Spectrum_init w v) = w \<and> values' (Spectrum_init w v) = v \<and>
   (normalize_spectrum s = Inr t \<longrightarrow>
      wavelengths t = wavelengths s \<and> shape (values' t) = shape (values' s))"
proof -
  have "wavelengths t = wavelengths s \<and> shape (values' t) = shape (values' s)"
    if "normalize_spectrum s = Inr t"
    using that
    by (auto simp: normalize_spectrum_def Let_def bindE_def Spectrum_init_def
          divide_ndarray_def ufunc2_def scalar_def split: sum.splits)
  then show ?thesis
    by (simp add: Spectrum_init_def)
qed

theorem Spectrum_keeps_its_arrays_witness:
  "normalize_spectrum (Spectrum_init (NDArray [2] [Fin 400, Fin 700]) (NDArray [2] [Fin 1, Fin 2])) =
     Inr (Spectrum_init (NDArray [2] [Fin 400, Fin 700]) (NDArray [2] [Fin 1, Fin 2])) \<and>
   wavelengths (Spectrum_init (NDArray [2] [Fin 400, Fin 700]) (NDArray [2] [Fin 1, Fin 2])) =
     NDArray [2] [Fin 400, Fin 700] \<and>
   shape (values' (Spectrum_init (NDArray [2] [Fin 400, Fin 700]) (NDArray [2] [Fin 1, Fin 2]))) = [2]"
proof -
  let ?s = "Spectrum_init (NDArray [2] [Fin 400, Fin 700]) (NDArray [2] [Fin 1, Fin 2])"
  have lo: "binsearch_left [Fin 400, Fin 700] (Fin 400) 0 2 = 0"
    by (simp add: binsearch_left_step [of _ _ 0 2] binsearch_left_step [of _ _ 0 "Suc 0"]
          binsearch_left_step [of _ _ 0 0])
  have hi: "binsearch_left [Fin 400, Fin 700] (Fin 700) 0 2 = 1"
    by (simp add: binsearch_left_step [of _ _ 0 2] binsearch_left_step [of _ _ 0 "Suc 0"]
          binsearch_left_step [of _ _ "Suc 0" "Suc 0"])
  have a: "normalize_spectrum ?s = Inr ?s"
    by (simp add: normalize_spectrum_def Spectrum_init_def np_searchsorted_def lo hi
          getitem_slice_def np_max_def max_list_def divide_ndarray_def ufunc2_def scalar_def Let_def)
  from Spectrum_keeps_its_arrays [of "NDArray [2] [Fin 400, Fin 700]" "NDArray [2] [Fin 1, Fin 2]" ?s ?s] a
  show ?thesis by simp
qed

text \<open>
  C6 as stated fails: constructing a Spectrum from three wavelengths and two values
  succeeds and gives a Spectrum whose arrays have lengths 3 and 2.
\<close>

theorem Spectrum_unequal_lengths_counterexample:
  "length (data (wavelengths (Spectrum_init (NDArray [3] [Fin 400, Fin 500, Fin 600])
                                            (NDArray [2] [Fin 1, Fin 2])))) = 3 \<and>
   length (data (values' (Spectrum_init (NDArray [3] [Fin 400, Fin 500, Fin 600])
                                        (NDArray [2] [Fin 1, Fin 2])))) = 2"
  by (simp add: Spectrum_init_def)

text \<open>
  C4. When the colour package is absent, importing the module succeeds and
  \<^verbatim>\<open>CIEXYZ.to_xy\<close> and \<^verbatim>\<open>CIEXYZ.from_spectrum\<close> raise the ImportError of
  \<^verbatim>\<open>check_colour\<close>. \<^verbatim>\<open>CIELUV.to_uv\<close> and \<^verbatim>\<open>CIELUV.from_XYZ\<close> do not call
  \<^verbatim>\<open>check_colour\<close>: they evaluate the unbound name \<^verbatim>\<open>colour\<close> and raise NameError instead
  of the missing-dependency ImportError.
\<close>

theorem CIELUV_without_colour_raises_NameError:
  "CIEXYZ_to_xy (import_colorimetry None) c =
     Inl (ImportError
       ''prysm colorimetry requires the colour package, see http://colour-science.org/installation-guide/'') \<and>
   CIEXYZ_from_spectrum (import_colorimetry None) s =
     Inl (ImportError
       ''prysm colorimetry requires the colour package, see http://colour-science.org/installation-guide/'') \<and>
   CIELUV_to_uv (import_colorimetry None) luv = Inl (NameError ''colour'') \<and>
   CIELUV_from_XYZ (import_colorimetry None) (Some c) x y z = Inl (NameError ''colour'') \<and>
   CIELUV_from_XYZ (import_colorimetry None) None (PyArr a) y z = Inl (NameError ''colour'')"
  by (simp add: CIEXYZ_to_xy_def CIEXYZ_from_spectrum_def CIELUV_to_uv_def CIELUV_from_XYZ_def
        CIELUV_of_XYZ_def check_colour_def name_colour_def import_colorimetry_def)

text \<open>
  C8. \<^verbatim>\<open>XYZ_to_RGB\<close> and \<^verbatim>\<open>XYZ_to_sRGB\<close> return \<^verbatim>\<open>None\<close> for every input; they take no
  state and return nothing else, so they have no effect.
\<close>

theorem XYZ_to_RGB_returns_None:
  "XYZ_to_RGB XYZ = Inr PyNone \<and> XYZ_to_sRGB XYZ = Inr PyNone"
  by (simp add: XYZ_to_RGB_def XYZ_to_sRGB_def)

text \<open>
  C9. \<^verbatim>\<open>CIELUV.from_XYZ\<close> raises ValueError('all values are None') when \<open>ciexyz\<close> is
  \<^verbatim>\<open>None\<close> and \<open>x\<close>, \<open>y\<close>, \<open>z\<close> are all \<^verbatim>\<open>None\<close>; when \<open>ciexyz\<close> is supplied, \<open>x\<close>, \<open>y\<close>,
  \<open>z\<close> are ignored and the coordinates of \<open>ciexyz\<close> are converted; when \<open>ciexyz\<close> is
  \<^verbatim>\<open>None\<close> and at least one of \<open>x\<close>, \<open>y\<close>, \<open>z\<close> is not, the three are converted as they
  are, the \<^verbatim>\<open>None\<close> ones included. So, unless the conversion by the colour package raises
  that very exception itself, the exception is raised if and only if all four are
  \<^verbatim>\<open>None\<close>.
\<close>

theorem CIELUV_from_XYZ_argument_check:
  "(ciexyz = None \<and> x = PyNone \<and> y = PyNone \<and> z = PyNone \<longrightarrow>
      CIELUV_from_XYZ g ciexyz x y z = Inl (ValueError ''all values are None'')) \<and>
   (ciexyz = Some c \<longrightarrow>
      CIELUV_from_XYZ g ciexyz x y z = CIELUV_of_XYZ g (ciexyz_x c, ciexyz_y c, ciexyz_z c)) \<and>
   (ciexyz = None \<and> \<not> (x = PyNone \<and> y = PyNone \<and> z = PyNone) \<longrightarrow>
      CIELUV_from_XYZ g ciexyz x y z = CIELUV_of_XYZ g (x, y, z)) \<and>
   ((\<forall>xyz. CIELUV_of_XYZ g xyz \<noteq> Inl (ValueError ''all values are None'')) \<longrightarrow>
      (CIELUV_from_XYZ g ciexyz x y z = Inl (ValueError ''all values are None'') \<longleftrightarrow>
       ciexyz = None \<and> x = PyNone \<and> y = PyNone \<and> z = PyNone))"
  by (cases ciexyz) (auto simp: CIELUV_from_XYZ_def)

theorem CIELUV_from_XYZ_argument_check_witness:
  "CIELUV_from_XYZ (import_colorimetry (Some stub_colour)) None PyNone PyNone PyNone =
     Inl (ValueError ''all values are None'') \<and>
   CIELUV_from_XYZ (import_colorimetry (Some stub_colour))
       (Some (CIEXYZ (PyArr (scalar (Fin 1))) (PyArr (scalar (Fin 2))) (PyArr (scalar (Fin 3)))))
       PyNone PyNone PyNone =
     Inr (CIELUV (PyArr (scalar (Fin 1))) (PyArr (scalar (Fin 3))) (PyArr (scalar (Fin 2)))) \<and>
   CIELUV_from_XYZ (import_colorimetry (Some stub_colour)) None PyNone (PyArr (scalar (Fin 2))) PyNone =
     Inr (CIELUV PyNone PyNone (PyArr (scalar (Fin 2)))) \<and>
   CIELUV_from_XYZ (import_colorimetry (Some stub_colour)) None PyNone (PyArr (scalar (Fin 2))) PyNone \<noteq>
     Inl (ValueError ''all values are None'') \<and>
   (\<forall>xyz. CIELUV_of_XYZ (import_colorimetry (Some stub_colour)) xyz \<noteq>
      Inl (ValueError ''all values are None''))"
proof -
  let ?g = "import_colorimetry (Some stub_colour)"
  let ?c = "CIEXYZ (PyArr (scalar (Fin 1))) (PyArr (scalar (Fin 2))) (PyArr (scalar (Fin 3)))"
  have lib: "\<forall>xyz. CIELUV_of_XYZ ?g xyz \<noteq> Inl (ValueError ''all values are None'')"
    by (auto simp: stub_CIELUV_of_XYZ)
  have 1: "CIELUV_from_XYZ ?g None PyNone PyNone PyNone = Inl (ValueError ''all values are None'')"
    using CIELUV_from_XYZ_argument_check [of None PyNone PyNone PyNone ?g] by simp
  have 2: "CIELUV_from_XYZ ?g (Some ?c) PyNone PyNone PyNone =
           Inr (CIELUV (PyArr (scalar (Fin 1))) (PyArr (scalar (Fin 3))) (PyArr (scalar (Fin 2))))"
    using CIELUV_from_XYZ_argument_check [of "Some ?c" PyNone PyNone PyNone ?g ?c]
    by (simp add: stub_CIELUV_of_XYZ)
  have 3: "CIELUV_from_XYZ ?g None PyNone (PyArr (scalar (Fin 2))) PyNone =
           Inr (CIELUV PyNone PyNone (PyArr (scalar (Fin 2))))"
    using CIELUV_from_XYZ_argument_check [of None PyNone "PyArr (scalar (Fin 2))" PyNone ?g]
    by (simp add: stub_CIELUV_of_XYZ)
  have 4: "CIELUV_from_XYZ ?g None PyNone (PyArr (scalar (Fin 2))) PyNone \<noteq>
           Inl (ValueError ''all values are None'')"
    using CIELUV_from_XYZ_argument_check [of None PyNone "PyArr (scalar (Fin 2))" PyNone ?g] lib
    by simp
  from 1 2 3 4 lib show ?thesis by blast
qed

end
